theory Spec2Isabelle
  imports Main
begin

section \<open>Values\<close>

text \<open>
  Python \<open>bytes\<close> and \<open>str\<close> are both lists of \<open>char\<close> here (a \<open>char\<close> is a byte; a
  non-ASCII character of a path is its UTF-8 sequence, which never contains the byte of
  \<open>/\<close>). An exception is the object a collaborator raised: its class and its message.
  The repository defines no exception class and has no \<open>try\<close>, \<open>except\<close> or \<open>raise\<close>.
\<close>

type_synonym bytes = string

datatype exn = Exn (exn_class: string) (exn_msg: string)

datatype pyval = PyStr string | PyInt int

type_synonym dict = "(string \<times> pyval) list"

section \<open>Path functions of the standard library (posixpath)\<close>

text \<open>
  \<open>os.path.basename(p)\<close> is \<open>p[p.rfind('/') + 1:]\<close>.
  \<open>os.path.join(a, b)\<close> is \<open>b\<close> when \<open>b\<close> starts with \<open>/\<close>, \<open>a + b\<close> when \<open>a\<close> is empty or
  ends with \<open>/\<close>, and \<open>a + '/' + b\<close> otherwise.
\<close>

definition basename :: "string \<Rightarrow> string" where
  "basename p = rev (takeWhile (\<lambda>c. c \<noteq> CHR ''/'') (rev p))"

definition join :: "string \<Rightarrow> string \<Rightarrow> string" where
  "join a b =
     (if b \<noteq> [] \<and> hd b = CHR ''/'' then b
      else if a = [] \<or> last a = CHR ''/'' then a @ b
      else a @ ''/'' @ b)"

section \<open>The collaborators: client library and operating system\<close>

text \<open>
  The office365 client library and the local file system are not part of the repository.
  They are a reference world: a local file system, a remote document store, and a record
  of every call the program makes to either, with its outcome. Any call may raise: the
  field \<open>fault\<close> decides it from the calls made so far and the call at hand, so that
  transient failures, refused credentials and refused permissions are all inputs.
\<close>

datatype UserCredential = UserCredential string string

record ClientContext =
  base_url :: string
  credentials :: UserCredential

record File =
  unique_id :: string
  name :: string
  major_version :: int
  minor_version :: int
  length_file :: int
  time_created :: string
  time_last_modified :: string

datatype Folder =
  Folder (context_of: ClientContext) (server_relative_url: string)
         (files: "File list") (folders: "Folder list")

record Response =
  content :: bytes

datatype call =
    WithCredentials string UserCredential
  | GetFolderByServerRelativeUrl ClientContext string
  | GetFolderByServerRelativePath ClientContext string
  | FoldersAdd Folder string
  | ExpandGet Folder "string list"
  | FolderUploadFile Folder string bytes
  | OpenBinary ClientContext string
  | ReadAll string
  | PathExists string
  | Makedirs string
  | OpenWrite string
  | WriteAll string bytes

fun is_remote_call :: "call \<Rightarrow> bool" where
  "is_remote_call (ReadAll _) = False"
| "is_remote_call (PathExists _) = False"
| "is_remote_call (Makedirs _) = False"
| "is_remote_call (OpenWrite _) = False"
| "is_remote_call (WriteAll _ _) = False"
| "is_remote_call _ = True"

record remote_file =
  rf_unique_id :: string
  rf_name :: string
  rf_major_version :: int
  rf_minor_version :: int
  rf_time_created :: string
  rf_time_last_modified :: string
  rf_content :: bytes

record remote_folder =
  stored_files :: "remote_file list"
  stored_folders :: "string list"

type_synonym event = "call \<times> exn option"

record world =
  local_files :: "string \<rightharpoonup> bytes"
  local_dirs :: "string set"
  remote :: "string \<rightharpoonup> remote_folder"
  server_time :: string
  fault :: "event list \<Rightarrow> call \<Rightarrow> exn option"
  trace :: "event list"

type_synonym 'a io = "world \<Rightarrow> (exn + 'a) \<times> world"

text \<open>
  One call to a collaborator: the injected fault if there is one, else what the
  reference semantics \<open>sem\<close> answers; either way the call and its outcome are appended
  to the trace. A call that raises leaves the rest of the world as it was.
\<close>

definition collab :: "call \<Rightarrow> (world \<Rightarrow> exn + 'a \<times> world) \<Rightarrow> 'a io" where
  "collab c sem w =
     (case fault w (trace w) c of
        Some e \<Rightarrow> (Inl e, w\<lparr>trace := trace w @ [(c, Some e)]\<rparr>)
      | None \<Rightarrow>
          (case sem w of
             Inl e \<Rightarrow> (Inl e, w\<lparr>trace := trace w @ [(c, Some e)]\<rparr>)
           | Inr (v, w') \<Rightarrow> (Inr v, w'\<lparr>trace := trace w @ [(c, None)]\<rparr>)))"

subsection \<open>Session provider\<close>

text \<open>
  \<open>ClientContext(url).with_credentials(cred)\<close>: whether the provider accepts is the
  world's decision (\<open>fault\<close>); when it does, the session is bound to \<open>url\<close> and \<open>cred\<close>.
\<close>

definition with_credentials :: "string \<Rightarrow> UserCredential \<Rightarrow> ClientContext io" where
  "with_credentials u cred =
     collab (WithCredentials u cred)
       (\<lambda>w. Inr (\<lparr>base_url = u, credentials = cred\<rparr>, w))"

subsection \<open>Local file system\<close>

text \<open>
  Files are keyed by the path as written, directories by the path without trailing
  slashes. The current directory (\<open>''''\<close> as a parent, \<open>.\<close>, \<open>..\<close>) and the root always exist.
\<close>

definition rstrip_slash :: "string \<Rightarrow> string" where
  "rstrip_slash p = rev (dropWhile (\<lambda>c. c = CHR ''/'') (rev p))"

definition dir_key :: "string \<Rightarrow> string" where
  "dir_key p = (if p \<noteq> [] \<and> rstrip_slash p = [] then ''/'' else rstrip_slash p)"

definition head_of :: "string \<Rightarrow> string" where
  "head_of p = rev (dropWhile (\<lambda>c. c \<noteq> CHR ''/'') (rev p))"

definition parent_key :: "string \<Rightarrow> string" where
  "parent_key p = dir_key (head_of p)"

definition names_a_dir :: "string \<Rightarrow> bool" where
  "names_a_dir p = (basename p = [] \<or> basename p = ''.'' \<or> basename p = ''..'')"

definition file_at :: "world \<Rightarrow> string \<Rightarrow> bytes option" where
  "file_at w p = (if names_a_dir p then None else local_files w p)"

definition is_dir_key :: "world \<Rightarrow> string \<Rightarrow> bool" where
  "is_dir_key w k = (k = [] \<or> k = ''/'' \<or> k = ''.'' \<or> k = ''..'' \<or> k \<in> local_dirs w)"

definition exists_now :: "world \<Rightarrow> string \<Rightarrow> bool" where
  "exists_now w p = (p \<noteq> [] \<and> (is_dir_key w (dir_key p) \<or> file_at w p \<noteq> None))"

fun dir_tree :: "string \<Rightarrow> string \<Rightarrow> string list" where
  "dir_tree acc [] = [acc]"
| "dir_tree acc (c # cs) =
     (if c = CHR ''/'' then acc # dir_tree (acc @ [c]) cs else dir_tree (acc @ [c]) cs)"

text \<open>\<open>with open(p, 'rb') as f: return f.read()\<close>\<close>

definition read_all :: "string \<Rightarrow> bytes io" where
  "read_all p =
     collab (ReadAll p)
       (\<lambda>w. case file_at w p of
               None \<Rightarrow> Inl (Exn ''FileNotFoundError'' p)
             | Some b \<Rightarrow> Inr (b, w))"

text \<open>\<open>os.path.exists(p)\<close> never raises.\<close>

definition path_exists :: "string \<Rightarrow> world \<Rightarrow> bool \<times> world" where
  "path_exists p w = (exists_now w p, w\<lparr>trace := trace w @ [(PathExists p, None)]\<rparr>)"

text \<open>\<open>os.makedirs(p, exist_ok=True)\<close>\<close>

definition makedirs :: "string \<Rightarrow> unit io" where
  "makedirs p =
     collab (Makedirs p)
       (\<lambda>w. if p = [] then Inl (Exn ''FileNotFoundError'' p)
            else if list_ex (\<lambda>q. file_at w q \<noteq> None) (dir_tree [] p)
              then Inl (Exn ''NotADirectoryError'' p)
            else Inr ((), w\<lparr>local_dirs := local_dirs w \<union> dir_key ` set (dir_tree [] p)\<rparr>))"

text \<open>\<open>open(p, 'wb')\<close> creates or truncates the file; \<open>f.write(b)\<close> then fills it.\<close>

definition open_wb :: "string \<Rightarrow> unit io" where
  "open_wb p =
     collab (OpenWrite p)
       (\<lambda>w. if names_a_dir p \<or> dir_key p \<in> local_dirs w then Inl (Exn ''IsADirectoryError'' p)
            else if \<not> is_dir_key w (parent_key p) then Inl (Exn ''FileNotFoundError'' p)
            else Inr ((), w\<lparr>local_files := (local_files w)(p \<mapsto> [])\<rparr>))"

definition write_all :: "string \<Rightarrow> bytes \<Rightarrow> unit io" where
  "write_all p b =
     collab (WriteAll p b) (\<lambda>w. Inr ((), w\<lparr>local_files := (local_files w)(p \<mapsto> b)\<rparr>))"

subsection \<open>Remote document store\<close>

text \<open>
  Folders are keyed by server-relative path. A URL that does not start with \<open>/\<close> is
  relative to the web the session is bound to, whose server-relative path is the path
  part of the session's URL. The store reports a file's length as the number of bytes
  it holds. A folder lookup only builds a handle; requests on a folder that the store
  does not have raise.
\<close>

fun after_scheme :: "string \<Rightarrow> string" where
  "after_scheme (a # b # c # r) =
     (if a = CHR '':'' \<and> b = CHR ''/'' \<and> c = CHR ''/'' then r else after_scheme (b # c # r))"
| "after_scheme r = []"

definition web_path :: "ClientContext \<Rightarrow> string" where
  "web_path ctx = dropWhile (\<lambda>c. c \<noteq> CHR ''/'') (after_scheme (base_url ctx))"

definition absolute :: "ClientContext \<Rightarrow> string \<Rightarrow> string" where
  "absolute ctx u = (if u \<noteq> [] \<and> hd u = CHR ''/'' then u else web_path ctx @ ''/'' @ u)"

definition folder_key :: "Folder \<Rightarrow> string" where
  "folder_key f = absolute (context_of f) (server_relative_url f)"

definition not_found :: "string \<Rightarrow> exn" where
  "not_found p = Exn ''ClientRequestException'' p"

definition file_handle :: "remote_file \<Rightarrow> File" where
  "file_handle r =
     \<lparr>unique_id = rf_unique_id r, name = rf_name r,
      major_version = rf_major_version r, minor_version = rf_minor_version r,
      length_file = int (length (rf_content r)),
      time_created = rf_time_created r, time_last_modified = rf_time_last_modified r\<rparr>"

definition child_handle :: "Folder \<Rightarrow> string \<Rightarrow> Folder" where
  "child_handle f n = Folder (context_of f) (server_relative_url f @ ''/'' @ n) [] []"

definition get_folder_by_server_relative_url :: "ClientContext \<Rightarrow> string \<Rightarrow> Folder io" where
  "get_folder_by_server_relative_url ctx u =
     collab (GetFolderByServerRelativeUrl ctx u) (\<lambda>w. Inr (Folder ctx u [] [], w))"

definition get_folder_by_server_relative_path :: "ClientContext \<Rightarrow> string \<Rightarrow> Folder io" where
  "get_folder_by_server_relative_path ctx u =
     collab (GetFolderByServerRelativePath ctx u) (\<lambda>w. Inr (Folder ctx u [] [], w))"

text \<open>\<open>folder.folders.add(n).execute_query()\<close>\<close>

definition folders_add :: "Folder \<Rightarrow> string \<Rightarrow> Folder io" where
  "folders_add f n =
     collab (FoldersAdd f n)
       (\<lambda>w. case remote w (folder_key f) of
               None \<Rightarrow> Inl (not_found (folder_key f))
             | Some d \<Rightarrow>
                 let k = folder_key (child_handle f n);
                     d' = d\<lparr>stored_folders :=
                            (if n \<in> set (stored_folders d) then stored_folders d
                             else stored_folders d @ [n])\<rparr>;
                     sub = (case remote w k of
                              None \<Rightarrow> \<lparr>stored_files = [], stored_folders = []\<rparr>
                            | Some s \<Rightarrow> s)
                 in Inr (child_handle f n,
                         w\<lparr>remote := (remote w)(folder_key f \<mapsto> d', k \<mapsto> sub)\<rparr>))"

text \<open>\<open>folder.expand(props).get().execute_query()\<close> loads the named collections.\<close>

definition expand_get :: "Folder \<Rightarrow> string list \<Rightarrow> Folder io" where
  "expand_get f props =
     collab (ExpandGet f props)
       (\<lambda>w. case remote w (folder_key f) of
               None \<Rightarrow> Inl (not_found (folder_key f))
             | Some d \<Rightarrow>
                 Inr (Folder (context_of f) (server_relative_url f)
                        (if ''Files'' \<in> set props then map file_handle (stored_files d)
                         else files f)
                        (if ''Folders'' \<in> set props then map (child_handle f) (stored_folders d)
                         else folders f),
                      w))"

text \<open>
  \<open>folder.upload_file(n, b).execute_query()\<close> creates the file or replaces its content.
\<close>

fun put_file :: "string \<Rightarrow> string \<Rightarrow> string \<Rightarrow> bytes \<Rightarrow> remote_file list \<Rightarrow> remote_file list" where
  "put_file k now n b [] =
     [\<lparr>rf_unique_id = k @ ''/'' @ n, rf_name = n, rf_major_version = 1,
       rf_minor_version = 0, rf_time_created = now, rf_time_last_modified = now,
       rf_content = b\<rparr>]"
| "put_file k now n b (r # rs) =
     (if rf_name r = n
      then r\<lparr>rf_major_version := rf_major_version r + 1, rf_time_last_modified := now,
             rf_content := b\<rparr> # rs
      else r # put_file k now n b rs)"

definition folder_upload_file :: "Folder \<Rightarrow> string \<Rightarrow> bytes \<Rightarrow> unit io" where
  "folder_upload_file f n b =
     collab (FolderUploadFile f n b)
       (\<lambda>w. case remote w (folder_key f) of
               None \<Rightarrow> Inl (not_found (folder_key f))
             | Some d \<Rightarrow>
                 Inr ((), w\<lparr>remote := (remote w)(folder_key f \<mapsto>
                            d\<lparr>stored_files :=
                                put_file (folder_key f) (server_time w) n b (stored_files d)\<rparr>)\<rparr>))"

text \<open>\<open>File.open_binary(ctx, path)\<close>\<close>

definition open_binary :: "ClientContext \<Rightarrow> string \<Rightarrow> Response io" where
  "open_binary ctx p =
     collab (OpenBinary ctx p)
       (\<lambda>w. case remote w (butlast (head_of (absolute ctx p))) of
               None \<Rightarrow> Inl (not_found p)
             | Some d \<Rightarrow>
                 (case find (\<lambda>r. rf_name r = basename p) (stored_files d) of
                    None \<Rightarrow> Inl (not_found p)
                  | Some r \<Rightarrow> Inr (\<lparr>content = rf_content r\<rparr>, w)))"

section \<open>decorators.py\<close>

text \<open>
  \<open>decorator_root_folder(func)\<close>: the wrapper looks the folder \<open>f"{self.doc}/{parent_folder}"\<close>
  up on the session and calls \<open>func\<close> with the handle in place of the string.
\<close>

record SharePoint =
  url :: string
  username :: string
  password :: string
  site_name :: string
  doc :: string
  session :: ClientContext

definition decorator_root_folder ::
    "(SharePoint \<Rightarrow> Folder \<Rightarrow> 'a \<Rightarrow> 'b io) \<Rightarrow> SharePoint \<Rightarrow> string \<Rightarrow> 'a \<Rightarrow> 'b io" where
  "decorator_root_folder func self parent_folder args w =
     (case get_folder_by_server_relative_url (session self)
             (doc self @ ''/'' @ parent_folder) w of
        (Inl e, w') \<Rightarrow> (Inl e, w')
      | (Inr folder_name, w') \<Rightarrow> func self folder_name args w')"

section \<open>sharepoint.py\<close>

text \<open>The dataclass constructor: the fields, \<open>doc\<close> defaulting, then \<open>__post_init__\<close>.\<close>

definition new_SharePoint ::
    "string \<Rightarrow> string \<Rightarrow> string \<Rightarrow> string \<Rightarrow> string option \<Rightarrow> SharePoint io" where
  "new_SharePoint u usr pwd site doc_arg w =
     (case with_credentials (u @ ''/sites/'' @ site) (UserCredential usr pwd) w of
        (Inl e, w') \<Rightarrow> (Inl e, w')
      | (Inr s, w') \<Rightarrow>
          (Inr \<lparr>url = u, username = usr, password = pwd, site_name = site,
                doc = (case doc_arg of None \<Rightarrow> ''Shared Documents'' | Some d \<Rightarrow> d),
                session = s\<rparr>, w'))"

definition get_local_file_content :: "SharePoint \<Rightarrow> string \<Rightarrow> bytes io" where
  "get_local_file_content self local_file = read_all local_file"

definition send_file_to_sharepoint ::
    "SharePoint \<Rightarrow> string \<Rightarrow> string \<Rightarrow> bytes \<Rightarrow> unit io" where
  "send_file_to_sharepoint self file_name folder_name file_content w =
     (case get_folder_by_server_relative_path (session self)
             (''/sites/'' @ site_name self @ ''/'' @ doc self @ ''/'' @ folder_name) w of
        (Inl e, w') \<Rightarrow> (Inl e, w')
      | (Inr target_folder, w') \<Rightarrow> folder_upload_file target_folder file_name file_content w')"

definition upload_file :: "SharePoint \<Rightarrow> string \<Rightarrow> string \<Rightarrow> unit io" where
  "upload_file self local_file_path sharepoint_destination w =
     (case get_local_file_content self local_file_path w of
        (Inl e, w') \<Rightarrow> (Inl e, w')
      | (Inr file_content, w') \<Rightarrow>
          send_file_to_sharepoint self (basename local_file_path) sharepoint_destination
            file_content w')"

definition get_sharepoint_file_content :: "SharePoint \<Rightarrow> string \<Rightarrow> bytes io" where
  "get_sharepoint_file_content self source w =
     (case open_binary (session self)
             (''/sites/'' @ site_name self @ ''/'' @ doc self @ ''/'' @ source) w of
        (Inl e, w') \<Rightarrow> (Inl e, w')
      | (Inr file, w') \<Rightarrow> (Inr (content file), w'))"

definition save_file :: "string \<Rightarrow> bytes \<Rightarrow> string \<Rightarrow> unit io" where
  "save_file file_name file_obj destination w =
     (case path_exists destination w of
        (there, w1) \<Rightarrow>
          (case (if \<not> there then makedirs destination w1 else (Inr (), w1)) of
             (Inl e, w2) \<Rightarrow> (Inl e, w2)
           | (Inr _, w2) \<Rightarrow>
               (let file_dir_path = join destination file_name in
                case open_wb file_dir_path w2 of
                  (Inl e, w3) \<Rightarrow> (Inl e, w3)
                | (Inr _, w3) \<Rightarrow> write_all file_dir_path file_obj w3)))"

definition download_file :: "SharePoint \<Rightarrow> string \<Rightarrow> string \<Rightarrow> unit io" where
  "download_file self sharepoint_source destination w =
     (case get_sharepoint_file_content self sharepoint_source w of
        (Inl e, w') \<Rightarrow> (Inl e, w')
      | (Inr file_obj, w') \<Rightarrow> save_file (basename sharepoint_source) file_obj destination w')"

text \<open>The bodies under \<open>@decorator_root_folder\<close>, then the decorated methods.\<close>

definition create_folder_body :: "SharePoint \<Rightarrow> Folder \<Rightarrow> string \<Rightarrow> unit io" where
  "create_folder_body self parent_folder new_folder w =
     (case folders_add parent_folder new_folder w of
        (Inl e, w') \<Rightarrow> (Inl e, w')
      | (Inr _, w') \<Rightarrow> (Inr (), w'))"

definition create_folder :: "SharePoint \<Rightarrow> string \<Rightarrow> string \<Rightarrow> unit io" where
  "create_folder = decorator_root_folder create_folder_body"

definition get_files_list_body :: "SharePoint \<Rightarrow> Folder \<Rightarrow> unit \<Rightarrow> File list io" where
  "get_files_list_body self parent_folder args w =
     (case expand_get parent_folder [''Files'', ''Folders''] w of
        (Inl e, w') \<Rightarrow> (Inl e, w')
      | (Inr loaded, w') \<Rightarrow> (Inr (files loaded), w'))"

definition get_files_list :: "SharePoint \<Rightarrow> string \<Rightarrow> File list io" where
  "get_files_list self parent_folder = decorator_root_folder get_files_list_body self parent_folder ()"

definition get_folder_list_body :: "SharePoint \<Rightarrow> Folder \<Rightarrow> unit \<Rightarrow> Folder list io" where
  "get_folder_list_body self parent_folder args w =
     (case expand_get parent_folder [''Folders''] w of
        (Inl e, w') \<Rightarrow> (Inl e, w')
      | (Inr loaded, w') \<Rightarrow> (Inr (folders loaded), w'))"

definition get_folder_list :: "SharePoint \<Rightarrow> string \<Rightarrow> Folder list io" where
  "get_folder_list self parent_folder = decorator_root_folder get_folder_list_body self parent_folder ()"

text \<open>
  The generator \<open>name(files)\<close> inside \<open>get_file_properties_from_folder\<close>, run to its end by
  \<open>list(...)\<close>: one dictionary per file, in the order of the iteration.
\<close>

fun name_gen :: "File list \<Rightarrow> dict list" where
  "name_gen [] = []"
| "name_gen (file # rest) =
     [(''file_id'', PyStr (unique_id file)),
      (''file_name'', PyStr (name file)),
      (''major_version'', PyInt (major_version file)),
      (''minor_version'', PyInt (minor_version file)),
      (''file_size'', PyInt (length_file file)),
      (''time_created'', PyStr (time_created file)),
      (''time_last_modified'', PyStr (time_last_modified file))] # name_gen rest"

definition get_file_properties_from_folder :: "SharePoint \<Rightarrow> string \<Rightarrow> dict list io" where
  "get_file_properties_from_folder self folder_name w =
     (case get_files_list self folder_name w of
        (Inl e, w') \<Rightarrow> (Inl e, w')
      | (Inr files_list, w') \<Rightarrow> (Inr (name_gen files_list), w'))"

section \<open>Observing a run\<close>

text \<open>
  The events of a run are what it appended to the trace; its calls are the events without
  their outcomes. \<open>bind_io\<close> is Python's sequencing: the second statement runs only when the
  first did not raise. \<open>path_exists_io\<close> and \<open>return_io\<close> put the two steps that cannot
  raise into the same shape.
\<close>

definition outcome :: "exn + 'a \<Rightarrow> exn option" where
  "outcome r = (case r of Inl e \<Rightarrow> Some e | Inr _ \<Rightarrow> None)"

definition events :: "'a io \<Rightarrow> world \<Rightarrow> event list" where
  "events m w = drop (length (trace w)) (trace (snd (m w)))"

definition calls :: "'a io \<Rightarrow> world \<Rightarrow> call list" where
  "calls m w = map fst (events m w)"

definition bind_io :: "'a io \<Rightarrow> ('a \<Rightarrow> 'b io) \<Rightarrow> 'b io" where
  "bind_io m k w = (case m w of (Inl e, w') \<Rightarrow> (Inl e, w') | (Inr v, w') \<Rightarrow> k v w')"

definition return_io :: "'a \<Rightarrow> 'a io" where
  "return_io v w = (Inr v, w)"

definition path_exists_io :: "string \<Rightarrow> bool io" where
  "path_exists_io p w = (case path_exists p w of (there, w') \<Rightarrow> (Inr there, w'))"

definition logging :: "'a io \<Rightarrow> bool" where
  "logging m = (\<forall>w. trace (snd (m w)) = trace w @ events m w)"

text \<open>
  The server-relative path a call to the remote API carries: the string given to a lookup
  or to \<open>open_binary\<close>, and the string inside the handle a folder request is made on.
\<close>

fun path_sent :: "call \<Rightarrow> string option" where
  "path_sent (GetFolderByServerRelativeUrl _ u) = Some u"
| "path_sent (GetFolderByServerRelativePath _ u) = Some u"
| "path_sent (OpenBinary _ u) = Some u"
| "path_sent (FoldersAdd f _) = Some (server_relative_url f)"
| "path_sent (ExpandGet f _) = Some (server_relative_url f)"
| "path_sent (FolderUploadFile f _ _) = Some (server_relative_url f)"
| "path_sent _ = None"

fun paths_of :: "call list \<Rightarrow> string list" where
  "paths_of [] = []"
| "paths_of (c # cs) =
     (case path_sent c of None \<Rightarrow> paths_of cs | Some s \<Rightarrow> s # paths_of cs)"

definition paths_sent :: "'a io \<Rightarrow> world \<Rightarrow> string list" where
  "paths_sent m w = paths_of (calls m w)"

text \<open>
  A run is fail-stop when a result means that no call raised, and an exception means that
  the last call raised exactly it and no call before it raised.
\<close>

definition returned :: "event \<Rightarrow> bool" where
  "returned ev = (snd ev = None)"

definition fail_stop :: "exn + 'a \<Rightarrow> event list \<Rightarrow> bool" where
  "fail_stop r evs =
     (case r of
        Inr _ \<Rightarrow> list_all returned evs
      | Inl e \<Rightarrow> evs \<noteq> [] \<and> snd (last evs) = Some e \<and> list_all returned (butlast evs))"

definition disciplined :: "'a io \<Rightarrow> bool" where
  "disciplined m = (\<forall>w. fail_stop (fst (m w)) (events m w))"

text \<open>A world whose collaborators raise only what the reference semantics raises.\<close>

definition faultless :: "world \<Rightarrow> bool" where
  "faultless w = (\<forall>h c. fault w h c = None)"

section \<open>The specification's error taxonomy\<close>

text \<open>
  The specification names three kinds of error and asks that an error carry the name of
  the operation and the path it was attempted on.
\<close>

definition spec_error_kinds :: "string list" where
  "spec_error_kinds = [''AuthConfigError'', ''RemoteIOError'', ''LocalIOError'']"

fun starts_with :: "string \<Rightarrow> string \<Rightarrow> bool" where
  "starts_with [] ys = True"
| "starts_with (x # xs) [] = False"
| "starts_with (x # xs) (y # ys) = (x = y \<and> starts_with xs ys)"

fun mentions :: "string \<Rightarrow> string \<Rightarrow> bool" where
  "mentions [] s = starts_with s []"
| "mentions (c # cs) s = (starts_with s (c # cs) \<or> mentions cs s)"

definition wrapped_as_specified :: "string \<Rightarrow> string \<Rightarrow> exn \<Rightarrow> bool" where
  "wrapped_as_specified op_name path e =
     (exn_class e \<in> set spec_error_kinds \<and>
      mentions (exn_msg e) op_name \<and> mentions (exn_msg e) path)"

section \<open>A concrete site\<close>

definition ctx_ex :: ClientContext where
  "ctx_ex = \<lparr>base_url = ''https://c.sharepoint.com/sites/ps.all'',
             credentials = UserCredential ''u'' ''p''\<rparr>"

definition sp_ex :: SharePoint where
  "sp_ex = \<lparr>url = ''https://c.sharepoint.com'', username = ''u'', password = ''p'',
            site_name = ''ps.all'', doc = ''Shared Documents'', session = ctx_ex\<rparr>"

definition w_ex :: world where
  "w_ex = \<lparr>local_files = [''examples/test.csv'' \<mapsto> ''a,b,c''],
           local_dirs = {''examples''},
           remote = [''/sites/ps.all/Shared Documents/General'' \<mapsto>
                       \<lparr>stored_files = [], stored_folders = []\<rparr>],
           server_time = ''2023-04-07T13:15:08Z'',
           fault = (\<lambda>h c. None),
           trace = []\<rparr>"

text \<open>The same world with a file system that refuses the read, and with a provider that
  refuses the credentials.\<close>

definition w_denied :: world where
  "w_denied = w_ex\<lparr>fault := (\<lambda>h c. if c = ReadAll ''examples/test.csv''
                                     then Some (Exn ''PermissionError'' ''denied'') else None)\<rparr>"

definition w_rejecting :: world where
  "w_rejecting = w_ex\<lparr>fault := (\<lambda>h c. case c of
       WithCredentials u cred \<Rightarrow> Some (Exn ''ValueError'' ''invalid credentials'')
     | _ \<Rightarrow> None)\<rparr>"

text \<open>The path the specification says is sent, and what it means for an operation to
  resolve its folder argument through the shared routine before anything else.\<close>

definition spec_path :: "SharePoint \<Rightarrow> string \<Rightarrow> string" where
  "spec_path self p = ''sites/'' @ site_name self @ ''/'' @ doc self @ ''/'' @ p"

definition resolved_first :: "SharePoint \<Rightarrow> string \<Rightarrow> call list \<Rightarrow> bool" where
  "resolved_first self p cs =
     (take 1 cs = [GetFolderByServerRelativeUrl (session self) (doc self @ ''/'' @ p)])"

text \<open>A store that already holds two files and two folders, in an order that is not
  alphabetical.\<close>

definition w_listed :: world where
  "w_listed = w_ex\<lparr>remote := [''/sites/ps.all/Shared Documents/General'' \<mapsto>
      \<lparr>stored_files =
         [\<lparr>rf_unique_id = ''6956'', rf_name = ''test.jpg'', rf_major_version = 1,
           rf_minor_version = 0, rf_time_created = ''2021-12-24T14:39:30Z'',
           rf_time_last_modified = ''2021-12-24T14:39:35Z'', rf_content = ''jpg''\<rparr>,
          \<lparr>rf_unique_id = ''3ddb'', rf_name = ''test.csv'', rf_major_version = 29,
           rf_minor_version = 0, rf_time_created = ''2023-03-30T06:11:29Z'',
           rf_time_last_modified = ''2023-04-07T13:15:08Z'', rf_content = ''a,b,c''\<rparr>],
       stored_folders = [''zeta'', ''alpha'']\<rparr>]\<rparr>"

section \<open>Sequencing and the trace\<close>

lemma outcome_simps [simp]: "outcome (Inl e) = Some e" "outcome (Inr v) = None"
  by (simp_all add: outcome_def)

lemma collab_trace:
  "trace (snd (collab c sem w)) = trace w @ [(c, outcome (fst (collab c sem w)))]"
  by (simp add: collab_def split: option.split sum.split prod.split)

lemma events_collab: "events (collab c sem) w = [(c, outcome (fst (collab c sem w)))]"
  by (simp add: events_def collab_trace)

lemma logging_collab: "logging (collab c sem)"
  by (simp add: logging_def events_collab collab_trace)

lemma disciplined_collab: "disciplined (collab c sem)"
  by (simp add: disciplined_def events_collab fail_stop_def returned_def split: sum.split)

lemma collab_Inl_world:
  "fst (collab c sem w) = Inl e \<Longrightarrow> snd (collab c sem w) = w\<lparr>trace := trace w @ [(c, Some e)]\<rparr>"
  by (auto simp add: collab_def split: option.splits sum.splits prod.splits)

lemma collab_Inr_sem:
  "fst (collab c sem w) = Inr v \<Longrightarrow>
     \<exists>w'. sem w = Inr (v, w') \<and> snd (collab c sem w) = w'\<lparr>trace := trace w @ [(c, None)]\<rparr>"
  by (auto simp add: collab_def split: option.splits sum.splits prod.splits)

lemma collab_faultless:
  "fault w (trace w) c = None \<Longrightarrow> sem w = Inr (v, w') \<Longrightarrow>
     collab c sem w = (Inr v, w'\<lparr>trace := trace w @ [(c, None)]\<rparr>)"
  by (simp add: collab_def)

lemma collab_fault:
  "fault w (trace w) c = Some e \<Longrightarrow> collab c sem w = (Inl e, w\<lparr>trace := trace w @ [(c, Some e)]\<rparr>)"
  by (simp add: collab_def)

lemma loggingD: "logging m \<Longrightarrow> trace (snd (m w)) = trace w @ events m w"
  by (simp add: logging_def)

lemma bind_io_Inl: "fst (m w) = Inl e \<Longrightarrow> bind_io m k w = (Inl e, snd (m w))"
  by (cases "m w") (simp add: bind_io_def)

lemma bind_io_Inr: "fst (m w) = Inr v \<Longrightarrow> bind_io m k w = k v (snd (m w))"
  by (cases "m w") (simp add: bind_io_def)

lemma trace_bind_Inr:
  assumes "logging m" and "logging (k v)" and "fst (m w) = Inr v"
  shows "trace (snd (bind_io m k w)) = trace w @ events m w @ events (k v) (snd (m w))"
proof -
  have "trace (snd (k v (snd (m w)))) = trace (snd (m w)) @ events (k v) (snd (m w))"
    by (rule loggingD [OF assms(2)])
  also have "trace (snd (m w)) = trace w @ events m w"
    by (rule loggingD [OF assms(1)])
  finally show ?thesis using assms(3) by (simp add: bind_io_Inr)
qed

lemma events_bind:
  assumes "logging m" and "\<And>v. logging (k v)"
  shows "events (bind_io m k) w =
           events m w @ (case fst (m w) of Inl e \<Rightarrow> [] | Inr v \<Rightarrow> events (k v) (snd (m w)))"
proof (cases "fst (m w)")
  case (Inl e)
  then show ?thesis by (simp add: bind_io_Inl events_def)
next
  case (Inr v)
  have "events (bind_io m k) w = drop (length (trace w)) (trace (snd (bind_io m k w)))"
    by (simp add: events_def)
  also have "\<dots> = events m w @ events (k v) (snd (m w))"
    by (simp only: trace_bind_Inr [OF assms(1) assms(2) Inr] drop_append) simp
  finally show ?thesis using Inr by simp
qed

lemma logging_bind:
  assumes "logging m" and "\<And>v. logging (k v)"
  shows "logging (bind_io m k)"
  unfolding logging_def
proof
  fix w
  show "trace (snd (bind_io m k w)) = trace w @ events (bind_io m k) w"
  proof (cases "fst (m w)")
    case (Inl e)
    then show ?thesis using loggingD [OF assms(1), of w] by (simp add: bind_io_Inl events_def)
  next
    case (Inr v)
    show ?thesis
      by (simp only: events_bind [OF assms] trace_bind_Inr [OF assms(1) assms(2) Inr] Inr sum.case)
  qed
qed

lemma fail_stop_append:
  assumes "list_all returned xs" and "fail_stop r ys"
  shows "fail_stop r (xs @ ys)"
proof (cases r)
  case (Inl e)
  with assms(2) have ys: "ys \<noteq> []" "snd (last ys) = Some e" "list_all returned (butlast ys)"
    by (simp_all add: fail_stop_def)
  then show ?thesis using assms(1) Inl by (simp add: fail_stop_def butlast_append)
next
  case (Inr v)
  with assms show ?thesis by (simp add: fail_stop_def)
qed

lemma disciplined_bind:
  assumes lm: "logging m" and lk: "\<And>v. logging (k v)"
    and dm: "disciplined m" and dk: "\<And>v. disciplined (k v)"
  shows "disciplined (bind_io m k)"
  unfolding disciplined_def
proof
  fix w
  have m: "fail_stop (fst (m w)) (events m w)" using dm by (simp add: disciplined_def)
  show "fail_stop (fst (bind_io m k w)) (events (bind_io m k) w)"
  proof (cases "fst (m w)")
    case (Inl e)
    then show ?thesis using m by (simp add: events_bind [OF lm lk] bind_io_Inl fail_stop_def)
  next
    case (Inr v)
    have k: "fail_stop (fst (k v (snd (m w)))) (events (k v) (snd (m w)))"
      using dk [of v] by (simp add: disciplined_def)
    from m Inr have "list_all returned (events m w)" by (simp add: fail_stop_def)
    from fail_stop_append [OF this k] show ?thesis
      using Inr by (simp add: events_bind [OF lm lk] bind_io_Inr)
  qed
qed

lemma events_return: "events (return_io v) w = []"
  by (simp add: events_def return_io_def)

lemma logging_return: "logging (return_io v)"
  by (simp add: logging_def events_return) (simp add: return_io_def)

lemma disciplined_return: "disciplined (return_io v)"
  by (simp add: disciplined_def events_return fail_stop_def) (simp add: return_io_def)

lemma events_path_exists: "events (path_exists_io p) w = [(PathExists p, None)]"
  by (simp add: events_def path_exists_io_def path_exists_def)

lemma logging_path_exists: "logging (path_exists_io p)"
  by (simp add: logging_def events_path_exists) (simp add: path_exists_io_def path_exists_def)

lemma disciplined_path_exists: "disciplined (path_exists_io p)"
  by (simp add: disciplined_def events_path_exists fail_stop_def returned_def
       path_exists_io_def path_exists_def)

lemmas prim_defs =
  with_credentials_def read_all_def makedirs_def open_wb_def write_all_def
  get_folder_by_server_relative_url_def get_folder_by_server_relative_path_def
  folders_add_def expand_get_def folder_upload_file_def open_binary_def

lemma logging_prims:
  "logging (with_credentials u cred)" "logging (read_all p)" "logging (makedirs p)"
  "logging (open_wb p)" "logging (write_all p b)"
  "logging (get_folder_by_server_relative_url ctx s)"
  "logging (get_folder_by_server_relative_path ctx s)"
  "logging (folders_add f n)" "logging (expand_get f props)"
  "logging (folder_upload_file f n b)" "logging (open_binary ctx s)"
  by (simp_all only: prim_defs logging_collab)

lemma disciplined_prims:
  "disciplined (with_credentials u cred)" "disciplined (read_all p)" "disciplined (makedirs p)"
  "disciplined (open_wb p)" "disciplined (write_all p b)"
  "disciplined (get_folder_by_server_relative_url ctx s)"
  "disciplined (get_folder_by_server_relative_path ctx s)"
  "disciplined (folders_add f n)" "disciplined (expand_get f props)"
  "disciplined (folder_upload_file f n b)" "disciplined (open_binary ctx s)"
  by (simp_all only: prim_defs disciplined_collab)

lemma events_prims:
  "events (with_credentials u cred) w = [(WithCredentials u cred, outcome (fst (with_credentials u cred w)))]"
  "events (read_all p) w = [(ReadAll p, outcome (fst (read_all p w)))]"
  "events (makedirs p) w = [(Makedirs p, outcome (fst (makedirs p w)))]"
  "events (open_wb p) w = [(OpenWrite p, outcome (fst (open_wb p w)))]"
  "events (write_all p b) w = [(WriteAll p b, outcome (fst (write_all p b w)))]"
  "events (get_folder_by_server_relative_url ctx s) w =
     [(GetFolderByServerRelativeUrl ctx s, outcome (fst (get_folder_by_server_relative_url ctx s w)))]"
  "events (get_folder_by_server_relative_path ctx s) w =
     [(GetFolderByServerRelativePath ctx s, outcome (fst (get_folder_by_server_relative_path ctx s w)))]"
  "events (folders_add f n) w = [(FoldersAdd f n, outcome (fst (folders_add f n w)))]"
  "events (expand_get f props) w = [(ExpandGet f props, outcome (fst (expand_get f props w)))]"
  "events (folder_upload_file f n b) w = [(FolderUploadFile f n b, outcome (fst (folder_upload_file f n b w)))]"
  "events (open_binary ctx s) w = [(OpenBinary ctx s, outcome (fst (open_binary ctx s w)))]"
  by (simp_all only: prim_defs events_collab)

section \<open>The methods as sequences of calls\<close>

lemma new_SharePoint_bind:
  "new_SharePoint u usr pwd site doc_arg =
     bind_io (with_credentials (u @ ''/sites/'' @ site) (UserCredential usr pwd))
       (\<lambda>s. return_io \<lparr>url = u, username = usr, password = pwd, site_name = site,
                doc = (case doc_arg of None \<Rightarrow> ''Shared Documents'' | Some d \<Rightarrow> d),
                session = s\<rparr>)"
  by (rule ext) (simp add: new_SharePoint_def bind_io_def return_io_def split: prod.split sum.split)

lemma upload_file_bind:
  "upload_file self lp dest =
     bind_io (read_all lp) (\<lambda>c.
       bind_io (get_folder_by_server_relative_path (session self)
                  (''/sites/'' @ site_name self @ ''/'' @ doc self @ ''/'' @ dest))
         (\<lambda>h. folder_upload_file h (basename lp) c))"
  by (rule ext) (simp add: upload_file_def get_local_file_content_def send_file_to_sharepoint_def
       bind_io_def split: prod.split sum.split)

lemma save_file_bind:
  "save_file n b d =
     bind_io (path_exists_io d) (\<lambda>there.
       bind_io (if \<not> there then makedirs d else return_io ()) (\<lambda>_.
         bind_io (open_wb (join d n)) (\<lambda>_. write_all (join d n) b)))"
  by (rule ext) (simp add: save_file_def bind_io_def return_io_def path_exists_io_def Let_def
       split: prod.split sum.split)

lemma download_file_bind:
  "download_file self src d =
     bind_io (open_binary (session self)
                (''/sites/'' @ site_name self @ ''/'' @ doc self @ ''/'' @ src))
       (\<lambda>file. save_file (basename src) (content file) d)"
  by (rule ext) (simp add: download_file_def get_sharepoint_file_content_def
       bind_io_def split: prod.split sum.split)

lemma decorator_bind:
  "decorator_root_folder func self p args =
     bind_io (get_folder_by_server_relative_url (session self) (doc self @ ''/'' @ p))
       (\<lambda>h. func self h args)"
  by (rule ext) (simp add: decorator_root_folder_def bind_io_def split: prod.split sum.split)

lemma create_folder_bind:
  "create_folder self p n =
     bind_io (get_folder_by_server_relative_url (session self) (doc self @ ''/'' @ p))
       (\<lambda>h. bind_io (folders_add h n) (\<lambda>_. return_io ()))"
  unfolding create_folder_def decorator_bind
  by (rule arg_cong [where f = "bind_io _"], rule ext, rule ext)
     (simp add: create_folder_body_def bind_io_def return_io_def split: prod.split sum.split)

lemma get_files_list_bind:
  "get_files_list self p =
     bind_io (get_folder_by_server_relative_url (session self) (doc self @ ''/'' @ p))
       (\<lambda>h. bind_io (expand_get h [''Files'', ''Folders'']) (\<lambda>loaded. return_io (files loaded)))"
  unfolding get_files_list_def decorator_bind
  by (rule arg_cong [where f = "bind_io _"], rule ext, rule ext)
     (simp add: get_files_list_body_def bind_io_def return_io_def split: prod.split sum.split)

lemma get_folder_list_bind:
  "get_folder_list self p =
     bind_io (get_folder_by_server_relative_url (session self) (doc self @ ''/'' @ p))
       (\<lambda>h. bind_io (expand_get h [''Folders'']) (\<lambda>loaded. return_io (folders loaded)))"
  unfolding get_folder_list_def decorator_bind
  by (rule arg_cong [where f = "bind_io _"], rule ext, rule ext)
     (simp add: get_folder_list_body_def bind_io_def return_io_def split: prod.split sum.split)

lemma get_file_properties_bind:
  "get_file_properties_from_folder self p =
     bind_io (get_files_list self p) (\<lambda>fs. return_io (name_gen fs))"
  by (rule ext) (simp add: get_file_properties_from_folder_def bind_io_def return_io_def
       split: prod.split sum.split)

lemmas logging_intros =
  logging_bind logging_prims logging_return logging_path_exists

lemma logging_save_file: "logging (save_file n b d)"
  unfolding save_file_bind by (intro logging_bind) (simp_all add: logging_intros)

lemma logging_methods:
  "logging (new_SharePoint u usr pwd site doc_arg)"
  "logging (upload_file self lp dest)"
  "logging (download_file self src d)"
  "logging (create_folder self p n)"
  "logging (get_files_list self p)"
  "logging (get_folder_list self p)"
  "logging (get_file_properties_from_folder self p)"
  unfolding new_SharePoint_bind upload_file_bind download_file_bind create_folder_bind
    get_file_properties_bind get_files_list_bind get_folder_list_bind
  by (intro logging_bind logging_prims logging_return logging_save_file)+

section \<open>Errors\<close>

lemma disciplined_save_file: "disciplined (save_file n b d)"
  unfolding save_file_bind
  by (intro disciplined_bind logging_bind)
     (simp_all add: logging_intros disciplined_prims disciplined_return disciplined_path_exists)

lemma disciplined_methods:
  "disciplined (new_SharePoint u usr pwd site doc_arg)"
  "disciplined (upload_file self lp dest)"
  "disciplined (download_file self src d)"
  "disciplined (create_folder self p n)"
  "disciplined (get_files_list self p)"
  "disciplined (get_folder_list self p)"
  "disciplined (get_file_properties_from_folder self p)"
  unfolding new_SharePoint_bind upload_file_bind download_file_bind create_folder_bind
    get_file_properties_bind get_files_list_bind get_folder_list_bind
  by (intro disciplined_bind logging_bind logging_prims logging_return logging_save_file
        disciplined_prims disciplined_return disciplined_save_file)+

lemma disciplinedD: "disciplined m \<Longrightarrow> fail_stop (fst (m w)) (events m w)"
  by (simp add: disciplined_def)

text \<open>
  C8 (as amended): in every operation, and in construction, a failure raised by a
  collaborator is neither swallowed nor retried, and reaches the caller unchanged. If the
  operation returns, no call it made raised; if it raises \<open>e\<close>, its last call raised
  \<open>e\<close> itself and none before it raised. No operation name, path or error kind is added.
\<close>

theorem failures_propagate_unchanged:
  "fail_stop (fst (new_SharePoint u usr pwd site doc_arg w))
             (events (new_SharePoint u usr pwd site doc_arg) w) \<and>
   fail_stop (fst (upload_file self lp p w)) (events (upload_file self lp p) w) \<and>
   fail_stop (fst (download_file self p d w)) (events (download_file self p d) w) \<and>
   fail_stop (fst (create_folder self p n w)) (events (create_folder self p n) w) \<and>
   fail_stop (fst (get_files_list self p w)) (events (get_files_list self p) w) \<and>
   fail_stop (fst (get_folder_list self p w)) (events (get_folder_list self p) w) \<and>
   fail_stop (fst (get_file_properties_from_folder self p w))
             (events (get_file_properties_from_folder self p) w)"
  by (intro conjI disciplinedD disciplined_methods)

text \<open>
  C8 as stated fails: when the file system refuses the read with a \<open>PermissionError\<close>,
  \<open>upload_file\<close> raises that very exception, which is none of the specification's three
  kinds and names neither the operation nor the path.
\<close>

theorem upload_file_error_not_wrapped:
  "fst (upload_file sp_ex ''examples/test.csv'' ''General'' w_denied)
     = Inl (Exn ''PermissionError'' ''denied'') \<and>
   events (upload_file sp_ex ''examples/test.csv'' ''General'') w_denied
     = [(ReadAll ''examples/test.csv'', Some (Exn ''PermissionError'' ''denied''))] \<and>
   \<not> wrapped_as_specified ''upload_file'' ''examples/test.csv'' (Exn ''PermissionError'' ''denied'')"
  by (simp add: upload_file_def get_local_file_content_def read_all_def collab_def w_denied_def
        w_ex_def events_def wrapped_as_specified_def spec_error_kinds_def)

text \<open>
  C2 (as amended): when the session provider rejects the credentials with \<open>e\<close>,
  construction raises \<open>e\<close> itself after that single call to the provider, and produces
  no client and so no session.
\<close>

theorem construction_failure:
  assumes "fst (with_credentials (u @ ''/sites/'' @ site) (UserCredential usr pwd) w) = Inl e"
  shows "new_SharePoint u usr pwd site doc_arg w =
           (Inl e, w\<lparr>trace := trace w @
              [(WithCredentials (u @ ''/sites/'' @ site) (UserCredential usr pwd), Some e)]\<rparr>)"
proof -
  have "snd (with_credentials (u @ ''/sites/'' @ site) (UserCredential usr pwd) w) =
          w\<lparr>trace := trace w @
              [(WithCredentials (u @ ''/sites/'' @ site) (UserCredential usr pwd), Some e)]\<rparr>"
    using assms unfolding with_credentials_def by (rule collab_Inl_world)
  with assms show ?thesis
    by (cases "with_credentials (u @ ''/sites/'' @ site) (UserCredential usr pwd) w")
       (simp add: new_SharePoint_def)
qed

theorem construction_failure_witness:
  "fst (with_credentials (''https://c.sharepoint.com'' @ ''/sites/'' @ ''ps.all'')
          (UserCredential ''u'' ''wrong'') w_rejecting) = Inl (Exn ''ValueError'' ''invalid credentials'') \<and>
   new_SharePoint ''https://c.sharepoint.com'' ''u'' ''wrong'' ''ps.all'' None w_rejecting =
     (Inl (Exn ''ValueError'' ''invalid credentials''),
      w_rejecting\<lparr>trace := trace w_rejecting @
        [(WithCredentials (''https://c.sharepoint.com'' @ ''/sites/'' @ ''ps.all'')
            (UserCredential ''u'' ''wrong''), Some (Exn ''ValueError'' ''invalid credentials''))]\<rparr>)"
proof -
  have h: "fst (with_credentials (''https://c.sharepoint.com'' @ ''/sites/'' @ ''ps.all'')
          (UserCredential ''u'' ''wrong'') w_rejecting) = Inl (Exn ''ValueError'' ''invalid credentials'')"
    by (simp add: with_credentials_def collab_def w_rejecting_def w_ex_def)
  from h construction_failure [OF h, of None] show ?thesis by simp
qed

text \<open>
  C2 as stated fails: a provider that rejects with a \<open>ValueError\<close> makes construction
  raise that \<open>ValueError\<close>, not an \<open>AuthConfigError\<close>.
\<close>

theorem construction_error_is_not_AuthConfigError:
  "fst (new_SharePoint ''https://c.sharepoint.com'' ''u'' ''wrong'' ''ps.all'' None w_rejecting)
     = Inl (Exn ''ValueError'' ''invalid credentials'') \<and>
   exn_class (Exn ''ValueError'' ''invalid credentials'') \<noteq> ''AuthConfigError''"
  by (simp add: new_SharePoint_def with_credentials_def collab_def w_rejecting_def w_ex_def)

lemma read_all_remote: "remote (snd (read_all p w)) = remote w"
  by (simp add: read_all_def collab_def split: option.split sum.split prod.split)

text \<open>
  C10: when reading the local file fails, \<open>upload_file\<close> raises the same exception, the
  read is the only call it made, none of its calls went to the remote API, and the remote
  store is as it was.
\<close>

theorem upload_file_read_failure_sends_nothing:
  assumes "fst (get_local_file_content self lp w) = Inl e"
  shows "fst (upload_file self lp dest w) = Inl e \<and>
         events (upload_file self lp dest) w = [(ReadAll lp, Some e)] \<and>
         filter is_remote_call (calls (upload_file self lp dest) w) = [] \<and>
         remote (snd (upload_file self lp dest w)) = remote w"
proof -
  from assms have r: "fst (read_all lp w) = Inl e" by (simp add: get_local_file_content_def)
  have up: "upload_file self lp dest w = (Inl e, snd (read_all lp w))"
    unfolding upload_file_bind using r by (rule bind_io_Inl)
  have ev: "events (upload_file self lp dest) w = [(ReadAll lp, Some e)]"
    unfolding upload_file_bind by (simp add: events_bind logging_intros events_prims r)
  show ?thesis by (simp add: up ev calls_def read_all_remote)
qed

theorem upload_file_read_failure_sends_nothing_witness:
  "fst (get_local_file_content sp_ex ''missing.csv'' w_ex) = Inl (Exn ''FileNotFoundError'' ''missing.csv'') \<and>
   fst (upload_file sp_ex ''missing.csv'' ''General'' w_ex) = Inl (Exn ''FileNotFoundError'' ''missing.csv'') \<and>
   events (upload_file sp_ex ''missing.csv'' ''General'') w_ex
     = [(ReadAll ''missing.csv'', Some (Exn ''FileNotFoundError'' ''missing.csv''))] \<and>
   filter is_remote_call (calls (upload_file sp_ex ''missing.csv'' ''General'') w_ex) = [] \<and>
   remote (snd (upload_file sp_ex ''missing.csv'' ''General'' w_ex)) = remote w_ex"
proof -
  have h: "fst (get_local_file_content sp_ex ''missing.csv'' w_ex) = Inl (Exn ''FileNotFoundError'' ''missing.csv'')"
    by (simp add: get_local_file_content_def read_all_def collab_def w_ex_def file_at_def
          names_a_dir_def basename_def)
  from h upload_file_read_failure_sends_nothing [OF h, of "''General''"] show ?thesis by simp
qed

section \<open>What the calls return\<close>

lemma lookup_url_Inr:
  assumes "fst (get_folder_by_server_relative_url ctx u w) = Inr h"
  shows "h = Folder ctx u [] []"
    and "snd (get_folder_by_server_relative_url ctx u w) =
           w\<lparr>trace := trace w @ [(GetFolderByServerRelativeUrl ctx u, None)]\<rparr>"
  using collab_Inr_sem [OF assms [unfolded get_folder_by_server_relative_url_def]]
  by (auto simp add: get_folder_by_server_relative_url_def)

lemma lookup_path_Inr:
  assumes "fst (get_folder_by_server_relative_path ctx u w) = Inr h"
  shows "h = Folder ctx u [] []"
    and "snd (get_folder_by_server_relative_path ctx u w) =
           w\<lparr>trace := trace w @ [(GetFolderByServerRelativePath ctx u, None)]\<rparr>"
  using collab_Inr_sem [OF assms [unfolded get_folder_by_server_relative_path_def]]
  by (auto simp add: get_folder_by_server_relative_path_def)

lemma read_all_Inr:
  assumes "fst (read_all p w) = Inr c"
  shows "file_at w p = Some c"
    and "snd (read_all p w) = w\<lparr>trace := trace w @ [(ReadAll p, None)]\<rparr>"
  using collab_Inr_sem [OF assms [unfolded read_all_def]]
  by (auto simp add: read_all_def split: option.splits)

lemma expand_get_Inr:
  assumes "fst (expand_get f props w) = Inr loaded"
  shows "\<exists>d. remote w (folder_key f) = Some d \<and>
           loaded = Folder (context_of f) (server_relative_url f)
              (if ''Files'' \<in> set props then map file_handle (stored_files d) else files f)
              (if ''Folders'' \<in> set props then map (child_handle f) (stored_folders d)
               else folders f)"
    and "snd (expand_get f props w) = w\<lparr>trace := trace w @ [(ExpandGet f props, None)]\<rparr>"
  using collab_Inr_sem [OF assms [unfolded expand_get_def]]
  by (auto simp add: expand_get_def split: option.splits)

section \<open>The calls of each method\<close>

lemma calls_upload_file:
  "calls (upload_file self lp dest) w =
     ReadAll lp #
     (case fst (read_all lp w) of
        Inl e \<Rightarrow> []
      | Inr c \<Rightarrow>
          GetFolderByServerRelativePath (session self)
            (''/sites/'' @ site_name self @ ''/'' @ doc self @ ''/'' @ dest) #
          (case fst (get_folder_by_server_relative_path (session self)
                  (''/sites/'' @ site_name self @ ''/'' @ doc self @ ''/'' @ dest)
                  (snd (read_all lp w))) of
             Inl e \<Rightarrow> []
           | Inr h \<Rightarrow>
               [FolderUploadFile
                  (Folder (session self)
                     (''/sites/'' @ site_name self @ ''/'' @ doc self @ ''/'' @ dest) [] [])
                  (basename lp) c]))"
  unfolding upload_file_bind calls_def
  by (simp add: events_bind logging_intros events_prims split: sum.split)
     (auto dest: lookup_path_Inr(1))

lemma calls_save_file:
  "calls (save_file n b d) w =
     PathExists d #
     (if exists_now w d then [] else [Makedirs d]) @
     (case fst ((if \<not> exists_now w d then makedirs d else return_io ())
                 (snd (path_exists_io d w))) of
        Inl e \<Rightarrow> []
      | Inr u \<Rightarrow>
          OpenWrite (join d n) #
          (case fst (open_wb (join d n)
                      (snd ((if \<not> exists_now w d then makedirs d else return_io ())
                              (snd (path_exists_io d w))))) of
             Inl e \<Rightarrow> []
           | Inr u \<Rightarrow> [WriteAll (join d n) b]))"
  unfolding save_file_bind calls_def
  by (simp add: events_bind logging_intros events_prims events_path_exists events_return
        path_exists_io_def path_exists_def split: sum.split)

lemma calls_download_file:
  "calls (download_file self src d) w =
     OpenBinary (session self) (''/sites/'' @ site_name self @ ''/'' @ doc self @ ''/'' @ src) #
     (case fst (open_binary (session self)
                 (''/sites/'' @ site_name self @ ''/'' @ doc self @ ''/'' @ src) w) of
        Inl e \<Rightarrow> []
      | Inr file \<Rightarrow>
          calls (save_file (basename src) (content file) d)
            (snd (open_binary (session self)
                 (''/sites/'' @ site_name self @ ''/'' @ doc self @ ''/'' @ src) w)))"
  unfolding download_file_bind calls_def
  by (simp add: events_bind logging_intros events_prims logging_save_file split: sum.split)

lemma calls_decorator:
  assumes "\<And>h. logging (func self h args)"
  shows "calls (decorator_root_folder func self p args) w =
     GetFolderByServerRelativeUrl (session self) (doc self @ ''/'' @ p) #
     (case fst (get_folder_by_server_relative_url (session self) (doc self @ ''/'' @ p) w) of
        Inl e \<Rightarrow> []
      | Inr h \<Rightarrow>
          calls (func self (Folder (session self) (doc self @ ''/'' @ p) [] []) args)
            (snd (get_folder_by_server_relative_url (session self) (doc self @ ''/'' @ p) w)))"
  unfolding decorator_bind calls_def
  by (simp add: events_bind logging_intros events_prims assms split: sum.split)
     (auto dest: lookup_url_Inr(1))

lemma create_folder_body_bind:
  "create_folder_body self h n = bind_io (folders_add h n) (\<lambda>_. return_io ())"
  by (rule ext) (simp add: create_folder_body_def bind_io_def return_io_def split: prod.split sum.split)

lemma get_files_list_body_bind:
  "get_files_list_body self h args =
     bind_io (expand_get h [''Files'', ''Folders'']) (\<lambda>loaded. return_io (files loaded))"
  by (rule ext) (simp add: get_files_list_body_def bind_io_def return_io_def split: prod.split sum.split)

lemma get_folder_list_body_bind:
  "get_folder_list_body self h args =
     bind_io (expand_get h [''Folders'']) (\<lambda>loaded. return_io (folders loaded))"
  by (rule ext) (simp add: get_folder_list_body_def bind_io_def return_io_def split: prod.split sum.split)

lemma logging_bodies:
  "logging (create_folder_body self h n)"
  "logging (get_files_list_body self h args)"
  "logging (get_folder_list_body self h args)"
  unfolding create_folder_body_bind get_files_list_body_bind get_folder_list_body_bind
  by (intro logging_bind logging_prims logging_return)+

lemma calls_bodies:
  "calls (create_folder_body self h n) w = [FoldersAdd h n]"
  "calls (get_files_list_body self h args) w = [ExpandGet h [''Files'', ''Folders'']]"
  "calls (get_folder_list_body self h args) w = [ExpandGet h [''Folders'']]"
  unfolding create_folder_body_bind get_files_list_body_bind get_folder_list_body_bind calls_def
  by (simp_all add: events_bind logging_intros events_prims events_return split: sum.split)

lemma calls_get_file_properties:
  "calls (get_file_properties_from_folder self p) w = calls (get_files_list self p) w"
  unfolding get_file_properties_bind calls_def
  by (simp add: events_bind logging_methods logging_return events_return split: sum.split)

section \<open>Paths and folder resolution\<close>

lemma paths_of_append: "paths_of (xs @ ys) = paths_of xs @ paths_of ys"
  by (induction xs) (simp_all split: option.split)

lemma paths_upload_file:
  "set (paths_sent (upload_file self lp p) w) =
     (case fst (get_local_file_content self lp w) of
        Inl e \<Rightarrow> {}
      | Inr c \<Rightarrow> {''/sites/'' @ site_name self @ ''/'' @ doc self @ ''/'' @ p})"
  by (simp add: paths_sent_def calls_upload_file get_local_file_content_def split: sum.split)

lemma paths_save_file: "paths_sent (save_file n b d) w = []"
  by (simp add: paths_sent_def calls_save_file paths_of_append split: sum.split)

lemma paths_download_file:
  "set (paths_sent (download_file self p d) w) =
     {''/sites/'' @ site_name self @ ''/'' @ doc self @ ''/'' @ p}"
  using paths_save_file [unfolded paths_sent_def]
  by (simp add: paths_sent_def calls_download_file split: sum.split)

lemma paths_decorated:
  "set (paths_sent (create_folder self p n) w) = {doc self @ ''/'' @ p}"
  "set (paths_sent (get_files_list self p) w) = {doc self @ ''/'' @ p}"
  "set (paths_sent (get_folder_list self p) w) = {doc self @ ''/'' @ p}"
  "set (paths_sent (get_file_properties_from_folder self p) w) = {doc self @ ''/'' @ p}"
  by (simp_all add: paths_sent_def calls_get_file_properties create_folder_def get_files_list_def
        get_folder_list_def calls_decorator logging_bodies calls_bodies split: sum.split)

text \<open>
  C1 (as amended): \<open>upload_file\<close> and \<open>download_file\<close> send the caller's path prefixed with
  \<open>/sites/{site_name}/{doc}/\<close> (and \<open>upload_file\<close> sends nothing when the local read fails);
  \<open>create_folder\<close>, \<open>get_files_list\<close>, \<open>get_folder_list\<close> and
  \<open>get_file_properties_from_folder\<close> send the caller's path prefixed with \<open>{doc}/\<close> only.
\<close>

theorem paths_sent_to_remote_api:
  "set (paths_sent (upload_file self lp p) w) =
     (case fst (get_local_file_content self lp w) of
        Inl e \<Rightarrow> {}
      | Inr c \<Rightarrow> {''/sites/'' @ site_name self @ ''/'' @ doc self @ ''/'' @ p}) \<and>
   set (paths_sent (download_file self p d) w) =
     {''/sites/'' @ site_name self @ ''/'' @ doc self @ ''/'' @ p} \<and>
   set (paths_sent (create_folder self p n) w) = {doc self @ ''/'' @ p} \<and>
   set (paths_sent (get_files_list self p) w) = {doc self @ ''/'' @ p} \<and>
   set (paths_sent (get_folder_list self p) w) = {doc self @ ''/'' @ p} \<and>
   set (paths_sent (get_file_properties_from_folder self p) w) = {doc self @ ''/'' @ p}"
  by (simp only: paths_upload_file paths_download_file paths_decorated simp_thms)

text \<open>
  C1 as stated fails: \<open>create_folder\<close> on \<open>General\<close> sends \<open>Shared Documents/General\<close>, which
  is not that path prefixed with \<open>sites/ps.all/Shared Documents/\<close>, with or without a
  leading slash.
\<close>

theorem create_folder_path_lacks_site_prefix:
  "paths_sent (create_folder sp_ex ''General'' ''test'') w_ex =
     [''Shared Documents/General'', ''Shared Documents/General''] \<and>
   ''Shared Documents/General'' \<noteq> spec_path sp_ex ''General'' \<and>
   ''Shared Documents/General'' \<noteq> ''/'' @ spec_path sp_ex ''General''"
  by (simp add: paths_sent_def calls_def events_def create_folder_def decorator_root_folder_def
        create_folder_body_def get_folder_by_server_relative_url_def folders_add_def collab_def
        folder_key_def absolute_def web_path_def child_handle_def sp_ex_def ctx_ex_def w_ex_def
        spec_path_def Let_def)

text \<open>
  C4 (as amended): \<open>create_folder\<close>, \<open>get_files_list\<close>, \<open>get_folder_list\<close> and, through
  \<open>get_files_list\<close>, \<open>get_file_properties_from_folder\<close> first look their argument up with
  the one shared routine (\<open>{doc}/\<close> prefixed, the session's lookup by URL) and make their
  own request on the handle it built, or none if the lookup raised. \<open>upload_file\<close> does
  not go through that routine: it never makes that lookup.
\<close>

theorem decorated_operations_resolve_first:
  "calls (create_folder self p n) w =
     GetFolderByServerRelativeUrl (session self) (doc self @ ''/'' @ p) #
     (case fst (get_folder_by_server_relative_url (session self) (doc self @ ''/'' @ p) w) of
        Inl e \<Rightarrow> []
      | Inr h \<Rightarrow> [FoldersAdd (Folder (session self) (doc self @ ''/'' @ p) [] []) n]) \<and>
   calls (get_files_list self p) w =
     GetFolderByServerRelativeUrl (session self) (doc self @ ''/'' @ p) #
     (case fst (get_folder_by_server_relative_url (session self) (doc self @ ''/'' @ p) w) of
        Inl e \<Rightarrow> []
      | Inr h \<Rightarrow> [ExpandGet (Folder (session self) (doc self @ ''/'' @ p) [] [])
                    [''Files'', ''Folders'']]) \<and>
   calls (get_folder_list self p) w =
     GetFolderByServerRelativeUrl (session self) (doc self @ ''/'' @ p) #
     (case fst (get_folder_by_server_relative_url (session self) (doc self @ ''/'' @ p) w) of
        Inl e \<Rightarrow> []
      | Inr h \<Rightarrow> [ExpandGet (Folder (session self) (doc self @ ''/'' @ p) [] []) [''Folders'']]) \<and>
   calls (get_file_properties_from_folder self p) w = calls (get_files_list self p) w \<and>
   resolved_first self p (calls (create_folder self p n) w) \<and>
   resolved_first self p (calls (get_files_list self p) w) \<and>
   resolved_first self p (calls (get_folder_list self p) w) \<and>
   resolved_first self p (calls (get_file_properties_from_folder self p) w) \<and>
   \<not> resolved_first self p (calls (upload_file self lp p) w) \<and>
   filter (\<lambda>c. c = GetFolderByServerRelativeUrl (session self) (doc self @ ''/'' @ p))
     (calls (upload_file self lp p) w) = []"
  by (simp add: calls_get_file_properties create_folder_def get_files_list_def
        get_folder_list_def calls_decorator logging_bodies calls_bodies resolved_first_def
        calls_upload_file split: sum.split)

text \<open>
  C4 as stated fails: \<open>upload_file\<close> takes a folder path, reads the local file first and then
  resolves the folder with its own lookup by path on \<open>/sites/ps.all/Shared Documents/General\<close>.
\<close>

theorem upload_file_skips_shared_resolution:
  "calls (upload_file sp_ex ''examples/test.csv'' ''General'') w_ex =
     [ReadAll ''examples/test.csv'',
      GetFolderByServerRelativePath ctx_ex ''/sites/ps.all/Shared Documents/General'',
      FolderUploadFile (Folder ctx_ex ''/sites/ps.all/Shared Documents/General'' [] [])
        ''test.csv'' ''a,b,c''] \<and>
   \<not> resolved_first sp_ex ''General'' (calls (upload_file sp_ex ''examples/test.csv'' ''General'') w_ex)"
  by (simp add: calls_def events_def upload_file_def get_local_file_content_def
        send_file_to_sharepoint_def read_all_def get_folder_by_server_relative_path_def
        folder_upload_file_def collab_def file_at_def names_a_dir_def basename_def
        folder_key_def absolute_def sp_ex_def w_ex_def resolved_first_def)

section \<open>Listing and metadata\<close>

lemma bind_io_result:
  "fst (bind_io m k w) = Inr v \<Longrightarrow>
     \<exists>v1. fst (m w) = Inr v1 \<and> bind_io m k w = k v1 (snd (m w))"
  by (cases "m w"; cases "fst (m w)") (auto simp add: bind_io_def)

lemma lookup_url_remote:
  "remote (snd (get_folder_by_server_relative_url ctx u w)) = remote w"
  by (simp add: get_folder_by_server_relative_url_def collab_def split: option.split)

lemma get_files_list_Inr:
  assumes "fst (get_files_list self p w) = Inr fs"
  shows "\<exists>d. remote w (absolute (session self) (doc self @ ''/'' @ p)) = Some d \<and>
               fs = map file_handle (stored_files d)"
proof -
  let ?u = "doc self @ ''/'' @ p"
  from bind_io_result [OF assms [unfolded get_files_list_bind]]
  obtain h where h: "fst (get_folder_by_server_relative_url (session self) ?u w) = Inr h"
    and r: "fst (bind_io (expand_get h [''Files'', ''Folders''])
                   (\<lambda>loaded. return_io (files loaded))
                   (snd (get_folder_by_server_relative_url (session self) ?u w))) = Inr fs"
    using assms by (auto simp add: get_files_list_bind)
  note hh = lookup_url_Inr [OF h]
  from bind_io_result [OF r] obtain loaded
    where l: "fst (expand_get h [''Files'', ''Folders'']
                (snd (get_folder_by_server_relative_url (session self) ?u w))) = Inr loaded"
      and fs: "fs = files loaded"
    using r by (auto simp add: return_io_def)
  from expand_get_Inr(1) [OF l] show ?thesis
    by (auto simp add: hh(1) fs folder_key_def lookup_url_remote)
qed

lemma get_folder_list_Inr:
  assumes "fst (get_folder_list self p w) = Inr ds"
  shows "\<exists>d. remote w (absolute (session self) (doc self @ ''/'' @ p)) = Some d \<and>
               ds = map (child_handle (Folder (session self) (doc self @ ''/'' @ p) [] []))
                      (stored_folders d)"
proof -
  let ?u = "doc self @ ''/'' @ p"
  from bind_io_result [OF assms [unfolded get_folder_list_bind]]
  obtain h where h: "fst (get_folder_by_server_relative_url (session self) ?u w) = Inr h"
    and r: "fst (bind_io (expand_get h [''Folders''])
                   (\<lambda>loaded. return_io (folders loaded))
                   (snd (get_folder_by_server_relative_url (session self) ?u w))) = Inr ds"
    using assms by (auto simp add: get_folder_list_bind)
  note hh = lookup_url_Inr [OF h]
  from bind_io_result [OF r] obtain loaded
    where l: "fst (expand_get h [''Folders'']
                (snd (get_folder_by_server_relative_url (session self) ?u w))) = Inr loaded"
      and ds: "ds = folders loaded"
    using r by (auto simp add: return_io_def)
  from expand_get_Inr(1) [OF l] show ?thesis
    by (auto simp add: hh(1) ds folder_key_def lookup_url_remote)
qed

text \<open>
  C9: \<open>get_files_list\<close> looks the folder up and asks for its \<open>Files\<close> and \<open>Folders\<close> to be
  expanded; when it returns, its result is the store's files of that folder as handles, in
  the store's order. \<open>get_folder_list\<close> does the same with \<open>Folders\<close> expanded and returns
  the child folder handles in the store's order.
\<close>

theorem listings_keep_remote_order:
  "calls (get_files_list self p) w =
     GetFolderByServerRelativeUrl (session self) (doc self @ ''/'' @ p) #
     (case fst (get_folder_by_server_relative_url (session self) (doc self @ ''/'' @ p) w) of
        Inl e \<Rightarrow> []
      | Inr h \<Rightarrow> [ExpandGet (Folder (session self) (doc self @ ''/'' @ p) [] [])
                    [''Files'', ''Folders'']]) \<and>
   calls (get_folder_list self p) w =
     GetFolderByServerRelativeUrl (session self) (doc self @ ''/'' @ p) #
     (case fst (get_folder_by_server_relative_url (session self) (doc self @ ''/'' @ p) w) of
        Inl e \<Rightarrow> []
      | Inr h \<Rightarrow> [ExpandGet (Folder (session self) (doc self @ ''/'' @ p) [] []) [''Folders'']]) \<and>
   (fst (get_files_list self p w) = Inr fs \<longrightarrow>
      (\<exists>d. remote w (absolute (session self) (doc self @ ''/'' @ p)) = Some d \<and>
           fs = map file_handle (stored_files d))) \<and>
   (fst (get_folder_list self p w) = Inr ds \<longrightarrow>
      (\<exists>d. remote w (absolute (session self) (doc self @ ''/'' @ p)) = Some d \<and>
           ds = map (child_handle (Folder (session self) (doc self @ ''/'' @ p) [] []))
                  (stored_folders d)))"
proof (intro conjI impI)
  show "calls (get_files_list self p) w =
     GetFolderByServerRelativeUrl (session self) (doc self @ ''/'' @ p) #
     (case fst (get_folder_by_server_relative_url (session self) (doc self @ ''/'' @ p) w) of
        Inl e \<Rightarrow> []
      | Inr h \<Rightarrow> [ExpandGet (Folder (session self) (doc self @ ''/'' @ p) [] [])
                    [''Files'', ''Folders'']])"
    by (simp add: get_files_list_def calls_decorator logging_bodies calls_bodies split: sum.split)
  show "calls (get_folder_list self p) w =
     GetFolderByServerRelativeUrl (session self) (doc self @ ''/'' @ p) #
     (case fst (get_folder_by_server_relative_url (session self) (doc self @ ''/'' @ p) w) of
        Inl e \<Rightarrow> []
      | Inr h \<Rightarrow> [ExpandGet (Folder (session self) (doc self @ ''/'' @ p) [] []) [''Folders'']])"
    by (simp add: get_folder_list_def calls_decorator logging_bodies calls_bodies split: sum.split)
next
  assume "fst (get_files_list self p w) = Inr fs"
  then show "\<exists>d. remote w (absolute (session self) (doc self @ ''/'' @ p)) = Some d \<and>
           fs = map file_handle (stored_files d)"
    by (rule get_files_list_Inr)
next
  assume "fst (get_folder_list self p w) = Inr ds"
  then show "\<exists>d. remote w (absolute (session self) (doc self @ ''/'' @ p)) = Some d \<and>
           ds = map (child_handle (Folder (session self) (doc self @ ''/'' @ p) [] []))
                  (stored_folders d)"
    by (rule get_folder_list_Inr)
qed

lemmas run_defs =
  decorator_root_folder_def get_files_list_def get_files_list_body_def
  get_folder_list_def get_folder_list_body_def get_folder_by_server_relative_url_def
  expand_get_def collab_def folder_key_def absolute_def web_path_def child_handle_def
  file_handle_def

lemma w_listed_files:
  "fst (get_files_list sp_ex ''General'' w_listed) =
     Inr [\<lparr>unique_id = ''6956'', name = ''test.jpg'', major_version = 1, minor_version = 0,
           length_file = 3, time_created = ''2021-12-24T14:39:30Z'',
           time_last_modified = ''2021-12-24T14:39:35Z''\<rparr>,
          \<lparr>unique_id = ''3ddb'', name = ''test.csv'', major_version = 29, minor_version = 0,
           length_file = 5, time_created = ''2023-03-30T06:11:29Z'',
           time_last_modified = ''2023-04-07T13:15:08Z''\<rparr>]"
  by (simp add: run_defs sp_ex_def ctx_ex_def w_listed_def w_ex_def)

lemma w_listed_folders:
  "fst (get_folder_list sp_ex ''General'' w_listed) =
     Inr [Folder ctx_ex ''Shared Documents/General/zeta'' [] [],
          Folder ctx_ex ''Shared Documents/General/alpha'' [] []]"
  by (simp add: run_defs sp_ex_def ctx_ex_def w_listed_def w_ex_def)


theorem listings_keep_remote_order_witness:
  "fst (get_files_list sp_ex ''General'' w_listed) =
     Inr [\<lparr>unique_id = ''6956'', name = ''test.jpg'', major_version = 1, minor_version = 0,
           length_file = 3, time_created = ''2021-12-24T14:39:30Z'',
           time_last_modified = ''2021-12-24T14:39:35Z''\<rparr>,
          \<lparr>unique_id = ''3ddb'', name = ''test.csv'', major_version = 29, minor_version = 0,
           length_file = 5, time_created = ''2023-03-30T06:11:29Z'',
           time_last_modified = ''2023-04-07T13:15:08Z''\<rparr>] \<and>
   fst (get_folder_list sp_ex ''General'' w_listed) =
     Inr [Folder ctx_ex ''Shared Documents/General/zeta'' [] [],
          Folder ctx_ex ''Shared Documents/General/alpha'' [] []] \<and>
   (\<exists>d. remote w_listed (absolute (session sp_ex) (doc sp_ex @ ''/'' @ ''General'')) = Some d \<and>
        [\<lparr>unique_id = ''6956'', name = ''test.jpg'', major_version = 1, minor_version = 0,
           length_file = 3, time_created = ''2021-12-24T14:39:30Z'',
           time_last_modified = ''2021-12-24T14:39:35Z''\<rparr>,
          \<lparr>unique_id = ''3ddb'', name = ''test.csv'', major_version = 29, minor_version = 0,
           length_file = 5, time_created = ''2023-03-30T06:11:29Z'',
           time_last_modified = ''2023-04-07T13:15:08Z''\<rparr>] = map file_handle (stored_files d)) \<and>
   (\<exists>d. remote w_listed (absolute (session sp_ex) (doc sp_ex @ ''/'' @ ''General'')) = Some d \<and>
        [Folder ctx_ex ''Shared Documents/General/zeta'' [] [],
         Folder ctx_ex ''Shared Documents/General/alpha'' [] []] =
        map (child_handle (Folder (session sp_ex) (doc sp_ex @ ''/'' @ ''General'') [] []))
          (stored_folders d))"
  using w_listed_files w_listed_folders
    listings_keep_remote_order [of sp_ex "''General''" w_listed
      "[\<lparr>unique_id = ''6956'', name = ''test.jpg'', major_version = 1, minor_version = 0,
           length_file = 3, time_created = ''2021-12-24T14:39:30Z'',
           time_last_modified = ''2021-12-24T14:39:35Z''\<rparr>,
          \<lparr>unique_id = ''3ddb'', name = ''test.csv'', major_version = 29, minor_version = 0,
           length_file = 5, time_created = ''2023-03-30T06:11:29Z'',
           time_last_modified = ''2023-04-07T13:15:08Z''\<rparr>]"
      "[Folder ctx_ex ''Shared Documents/General/zeta'' [] [],
        Folder ctx_ex ''Shared Documents/General/alpha'' [] []]"]
  by blast

lemma name_gen_map:
  "name_gen fs =
     map (\<lambda>file. [(''file_id'', PyStr (unique_id file)),
                   (''file_name'', PyStr (name file)),
                   (''major_version'', PyInt (major_version file)),
                   (''minor_version'', PyInt (minor_version file)),
                   (''file_size'', PyInt (length_file file)),
                   (''time_created'', PyStr (time_created file)),
                   (''time_last_modified'', PyStr (time_last_modified file))]) fs"
  by (induction fs) simp_all

lemma file_size_name_gen:
  "map (\<lambda>rec. map_of rec ''file_size'') (name_gen (map file_handle rs)) =
     map (\<lambda>r. Some (PyInt (int (length (rf_content r))))) rs"
  by (induction rs) (simp_all add: file_handle_def)

lemma get_file_properties_world:
  "snd (get_file_properties_from_folder self p w) = snd (get_files_list self p w)"
  by (cases "get_files_list self p w"; cases "fst (get_files_list self p w)")
     (simp_all add: get_file_properties_from_folder_def)

lemma get_file_properties_result:
  "fst (get_file_properties_from_folder self p w) =
     (case fst (get_files_list self p w) of Inl e \<Rightarrow> Inl e | Inr fs \<Rightarrow> Inr (name_gen fs))"
  by (cases "get_files_list self p w"; cases "fst (get_files_list self p w)")
     (simp_all add: get_file_properties_from_folder_def)

text \<open>
  C5: \<open>get_file_properties_from_folder\<close> leaves the world, and so the trace of calls,
  exactly as its one call to \<open>get_files_list\<close> left it, and raises what that call raised.
  When the listing returns, the result is the list of one dictionary per listed handle, in
  the same order, with the handle's id, name, versions, length and timestamps; every
  \<open>file_size\<close> is the number of bytes the store holds for that file.
\<close>

theorem file_properties_project_the_listing:
  "snd (get_file_properties_from_folder self p w) = snd (get_files_list self p w) \<and>
   events (get_file_properties_from_folder self p) w = events (get_files_list self p) w \<and>
   outcome (fst (get_file_properties_from_folder self p w)) = outcome (fst (get_files_list self p w)) \<and>
   (fst (get_files_list self p w) = Inr fs \<longrightarrow>
      (\<exists>recs d.
         fst (get_file_properties_from_folder self p w) = Inr recs \<and>
         length recs = length fs \<and>
         recs = map (\<lambda>file. [(''file_id'', PyStr (unique_id file)),
                             (''file_name'', PyStr (name file)),
                             (''major_version'', PyInt (major_version file)),
                             (''minor_version'', PyInt (minor_version file)),
                             (''file_size'', PyInt (length_file file)),
                             (''time_created'', PyStr (time_created file)),
                             (''time_last_modified'', PyStr (time_last_modified file))]) fs \<and>
         remote w (absolute (session self) (doc self @ ''/'' @ p)) = Some d \<and>
         map (\<lambda>rec. map_of rec ''file_size'') recs =
           map (\<lambda>r. Some (PyInt (int (length (rf_content r))))) (stored_files d)))"
proof (intro conjI impI)
  show "snd (get_file_properties_from_folder self p w) = snd (get_files_list self p w)"
    by (rule get_file_properties_world)
  then show "events (get_file_properties_from_folder self p) w = events (get_files_list self p) w"
    by (simp add: events_def)
  show "outcome (fst (get_file_properties_from_folder self p w)) =
          outcome (fst (get_files_list self p w))"
    by (simp add: get_file_properties_result split: sum.split)
next
  assume ok: "fst (get_files_list self p w) = Inr fs"
  from get_files_list_Inr [OF ok] obtain d
    where d: "remote w (absolute (session self) (doc self @ ''/'' @ p)) = Some d"
      and fs: "fs = map file_handle (stored_files d)" by blast
  have r: "fst (get_file_properties_from_folder self p w) = Inr (name_gen fs)"
    by (simp add: get_file_properties_result ok)
  have s: "map (\<lambda>rec. map_of rec ''file_size'') (name_gen fs) =
             map (\<lambda>r. Some (PyInt (int (length (rf_content r))))) (stored_files d)"
    unfolding fs by (rule file_size_name_gen)
  have l: "length (name_gen fs) = length fs" by (simp add: name_gen_map)
  show "\<exists>recs d.
         fst (get_file_properties_from_folder self p w) = Inr recs \<and>
         length recs = length fs \<and>
         recs = map (\<lambda>file. [(''file_id'', PyStr (unique_id file)),
                             (''file_name'', PyStr (name file)),
                             (''major_version'', PyInt (major_version file)),
                             (''minor_version'', PyInt (minor_version file)),
                             (''file_size'', PyInt (length_file file)),
                             (''time_created'', PyStr (time_created file)),
                             (''time_last_modified'', PyStr (time_last_modified file))]) fs \<and>
         remote w (absolute (session self) (doc self @ ''/'' @ p)) = Some d \<and>
         map (\<lambda>rec. map_of rec ''file_size'') recs =
           map (\<lambda>r. Some (PyInt (int (length (rf_content r))))) (stored_files d)"
    using r l s d name_gen_map [of fs] by (intro exI [of _ "name_gen fs"] exI [of _ d]) simp
qed

theorem file_properties_project_the_listing_witness:
  "fst (get_files_list sp_ex ''General'' w_listed) =
     Inr [\<lparr>unique_id = ''6956'', name = ''test.jpg'', major_version = 1, minor_version = 0,
           length_file = 3, time_created = ''2021-12-24T14:39:30Z'',
           time_last_modified = ''2021-12-24T14:39:35Z''\<rparr>,
          \<lparr>unique_id = ''3ddb'', name = ''test.csv'', major_version = 29, minor_version = 0,
           length_file = 5, time_created = ''2023-03-30T06:11:29Z'',
           time_last_modified = ''2023-04-07T13:15:08Z''\<rparr>] \<and>
   fst (get_file_properties_from_folder sp_ex ''General'' w_listed) =
     Inr [[(''file_id'', PyStr ''6956''), (''file_name'', PyStr ''test.jpg''),
           (''major_version'', PyInt 1), (''minor_version'', PyInt 0),
           (''file_size'', PyInt 3), (''time_created'', PyStr ''2021-12-24T14:39:30Z''),
           (''time_last_modified'', PyStr ''2021-12-24T14:39:35Z'')],
          [(''file_id'', PyStr ''3ddb''), (''file_name'', PyStr ''test.csv''),
           (''major_version'', PyInt 29), (''minor_version'', PyInt 0),
           (''file_size'', PyInt 5), (''time_created'', PyStr ''2023-03-30T06:11:29Z''),
           (''time_last_modified'', PyStr ''2023-04-07T13:15:08Z'')]]"
proof -
  note t = file_properties_project_the_listing [of sp_ex "''General''" w_listed
      "[\<lparr>unique_id = ''6956'', name = ''test.jpg'', major_version = 1, minor_version = 0,
           length_file = 3, time_created = ''2021-12-24T14:39:30Z'',
           time_last_modified = ''2021-12-24T14:39:35Z''\<rparr>,
          \<lparr>unique_id = ''3ddb'', name = ''test.csv'', major_version = 29, minor_version = 0,
           length_file = 5, time_created = ''2023-03-30T06:11:29Z'',
           time_last_modified = ''2023-04-07T13:15:08Z''\<rparr>]"]
  from t w_listed_files obtain recs where
    "fst (get_file_properties_from_folder sp_ex ''General'' w_listed) = Inr recs"
    "recs = map (\<lambda>file. [(''file_id'', PyStr (unique_id file)),
                             (''file_name'', PyStr (name file)),
                             (''major_version'', PyInt (major_version file)),
                             (''minor_version'', PyInt (minor_version file)),
                             (''file_size'', PyInt (length_file file)),
                             (''time_created'', PyStr (time_created file)),
                             (''time_last_modified'', PyStr (time_last_modified file))])
       [\<lparr>unique_id = ''6956'', name = ''test.jpg'', major_version = 1, minor_version = 0,
           length_file = 3, time_created = ''2021-12-24T14:39:30Z'',
           time_last_modified = ''2021-12-24T14:39:35Z''\<rparr>,
          \<lparr>unique_id = ''3ddb'', name = ''test.csv'', major_version = 29, minor_version = 0,
           length_file = 5, time_created = ''2023-03-30T06:11:29Z'',
           time_last_modified = ''2023-04-07T13:15:08Z''\<rparr>]"
    by blast
  with w_listed_files show ?thesis by simp
qed

section \<open>Paths\<close>

lemma basename_append:
  "basename (a @ b) = (if CHR ''/'' \<in> set b then basename b else basename a @ b)"
  by (auto simp add: basename_def takeWhile_append)

lemma basename_Cons:
  "basename (c # b) =
     (if CHR ''/'' \<in> set b then basename b else if c = CHR ''/'' then b else c # b)"
  using basename_append [of "[c]" b] by (simp add: basename_def)

lemma basename_Nil: "basename [] = []"
  by (simp add: basename_def)

lemma slash_notin_basename: "CHR ''/'' \<notin> set (basename p)"
  by (auto simp add: basename_def dest: set_takeWhileD)

lemma basename_no_slash: "CHR ''/'' \<notin> set n \<Longrightarrow> basename n = n"
proof -
  assume "CHR ''/'' \<notin> set n"
  then have "takeWhile (\<lambda>c. c \<noteq> CHR ''/'') (rev n) = rev n"
    by (auto simp add: takeWhile_eq_all_conv)
  then show ?thesis unfolding basename_def by (simp only: rev_rev_ident)
qed

lemma head_of_append:
  "head_of (a @ b) = (if CHR ''/'' \<in> set b then a @ head_of b else head_of a)"
  by (auto simp add: head_of_def dropWhile_append)

lemma head_of_Cons:
  "head_of (c # b) =
     (if CHR ''/'' \<in> set b then c # head_of b else if c = CHR ''/'' then [c] else [])"
  using head_of_append [of "[c]" b] by (simp add: head_of_def)

lemma head_of_no_slash: "CHR ''/'' \<notin> set n \<Longrightarrow> head_of n = []"
  by (auto simp add: head_of_def dropWhile_eq_Nil_conv)

lemma rstrip_slash_snoc: "rstrip_slash (d @ [CHR ''/'']) = rstrip_slash d"
  by (simp add: rstrip_slash_def)

lemma dir_key_snoc: "d \<noteq> [] \<Longrightarrow> dir_key (d @ [CHR ''/'']) = dir_key d"
  by (simp add: dir_key_def rstrip_slash_snoc)

lemma rstrip_slash_last: "p \<noteq> [] \<Longrightarrow> last p \<noteq> CHR ''/'' \<Longrightarrow> rstrip_slash p = p"
  by (cases p rule: rev_cases) (simp_all add: rstrip_slash_def)

lemma dir_key_last: "p \<noteq> [] \<Longrightarrow> last p \<noteq> CHR ''/'' \<Longrightarrow> dir_key p = p"
  by (simp add: dir_key_def rstrip_slash_last)

lemma length_rstrip_slash: "length (rstrip_slash p) \<le> length p"
  by (simp add: rstrip_slash_def length_dropWhile_le [of _ "rev p", simplified])

lemma length_dir_key: "p \<noteq> [] \<Longrightarrow> length (dir_key p) \<le> length p"
  using length_rstrip_slash [of p] by (cases p) (simp_all add: dir_key_def)

lemma dir_key_Nil: "dir_key [] = []"
  by (simp add: dir_key_def rstrip_slash_def)

lemma dir_tree_length: "q \<in> set (dir_tree acc p) \<Longrightarrow> length q \<le> length acc + length p"
  by (induction p arbitrary: acc) (fastforce split: if_splits)+

lemma dir_tree_nonempty: "dir_tree acc p \<noteq> []"
  by (induction p arbitrary: acc) simp_all

lemma dir_tree_last: "last (dir_tree acc p) = acc @ p"
  by (induction p arbitrary: acc) (simp_all add: dir_tree_nonempty)

lemma dir_tree_whole: "acc @ p \<in> set (dir_tree acc p)"
  using last_in_set [OF dir_tree_nonempty, of acc p] by (simp add: dir_tree_last)

lemma join_plain:
  assumes "CHR ''/'' \<notin> set n"
  shows "join d n = (if d = [] \<or> last d = CHR ''/'' then d @ n else d @ CHR ''/'' # n)"
  using assms by (cases n) (auto simp add: join_def)

lemma basename_join: "CHR ''/'' \<notin> set n \<Longrightarrow> basename (join d n) = n"
  by (simp add: join_plain basename_append basename_Cons basename_no_slash)
     (cases d rule: rev_cases, simp_all add: basename_append basename_Cons basename_no_slash)

lemma names_a_dir_join:
  "CHR ''/'' \<notin> set n \<Longrightarrow> names_a_dir (join d n) = names_a_dir n"
  by (simp add: names_a_dir_def basename_join basename_no_slash)

lemma names_a_dir_basename: "names_a_dir (basename p) = names_a_dir p"
  by (simp add: names_a_dir_def basename_no_slash slash_notin_basename)

lemma parent_key_join:
  assumes "CHR ''/'' \<notin> set n" and "d \<noteq> []"
  shows "parent_key (join d n) = dir_key d"
proof (cases "last d = CHR ''/''")
  case True
  then have "head_of (d @ n) = d"
    using assms by (cases d rule: rev_cases) (simp_all add: head_of_append head_of_Cons head_of_no_slash)
  then show ?thesis using True assms by (simp add: parent_key_def join_plain)
next
  case False
  have "head_of (d @ CHR ''/'' # n) = d @ [CHR ''/'']"
    using assms by (simp add: head_of_append head_of_Cons)
  then show ?thesis using False assms by (simp add: parent_key_def join_plain dir_key_snoc)
qed

lemma join_not_in_tree:
  assumes "CHR ''/'' \<notin> set n" and "n \<noteq> []" and "d \<noteq> []"
  shows "dir_key (join d n) \<notin> dir_key ` set (dir_tree [] d)"
proof
  assume "dir_key (join d n) \<in> dir_key ` set (dir_tree [] d)"
  then obtain q where q: "q \<in> set (dir_tree [] d)" and e: "dir_key (join d n) = dir_key q"
    by blast
  have "last n \<in> set n" using assms(2) by simp
  with assms(1) have "last n \<noteq> CHR ''/''" by metis
  then have l: "last (join d n) \<noteq> CHR ''/''" "join d n \<noteq> []"
    using assms by (auto simp add: join_plain)
  have big: "length d < length (join d n)" using assms by (auto simp add: join_plain)
  have "length (dir_key q) \<le> length d"
  proof (cases "q = []")
    case True then show ?thesis by (simp add: dir_key_Nil)
  next
    case False
    from length_dir_key [OF False] dir_tree_length [OF q] show ?thesis by simp
  qed
  with e big show False by (simp add: dir_key_last [OF l(2) l(1)])
qed

section \<open>Upload and download\<close>

lemma faultlessD: "faultless w \<Longrightarrow> fault w h c = None"
  by (simp add: faultless_def)

lemma file_at_frame [simp]:
  "file_at (w\<lparr>trace := t\<rparr>) = file_at w"
  "file_at (w\<lparr>local_dirs := ds\<rparr>) = file_at w"
  "file_at (w\<lparr>remote := r\<rparr>) = file_at w"
  by (simp_all add: file_at_def fun_eq_iff)

lemma is_dir_key_frame [simp]:
  "is_dir_key (w\<lparr>trace := t\<rparr>) = is_dir_key w"
  "is_dir_key (w\<lparr>local_files := fs\<rparr>) = is_dir_key w"
  "is_dir_key (w\<lparr>remote := r\<rparr>) = is_dir_key w"
  by (simp_all add: is_dir_key_def fun_eq_iff)

lemma exists_now_frame [simp]:
  "exists_now (w\<lparr>trace := t\<rparr>) = exists_now w"
  "exists_now (w\<lparr>remote := r\<rparr>) = exists_now w"
  by (simp_all add: exists_now_def fun_eq_iff)

lemma faultless_frame [simp]:
  "faultless (w\<lparr>trace := t\<rparr>) = faultless w"
  "faultless (w\<lparr>local_files := fs\<rparr>) = faultless w"
  "faultless (w\<lparr>local_dirs := ds\<rparr>) = faultless w"
  "faultless (w\<lparr>remote := r\<rparr>) = faultless w"
  by (simp_all add: faultless_def)

lemma find_put_file:
  "\<exists>r. find (\<lambda>r. rf_name r = n) (put_file k now n b rs) = Some r \<and> rf_content r = b"
  by (induction rs) simp_all

lemma file_at_Some: "file_at w p = Some c \<Longrightarrow> \<not> names_a_dir p \<and> local_files w p = Some c"
  by (simp add: file_at_def split: if_splits)

lemma save_file_creates:
  assumes f: "faultless w" and d: "d \<noteq> []" and fresh: "\<not> exists_now w d"
    and way: "\<not> list_ex (\<lambda>q. file_at w q \<noteq> None) (dir_tree [] d)"
    and n: "CHR ''/'' \<notin> set n" "\<not> names_a_dir n"
    and t: "dir_key (join d n) \<notin> local_dirs w"
  shows "save_file n b d w =
           (Inr (), w\<lparr>local_files := (local_files w)(join d n \<mapsto> b),
                       local_dirs := local_dirs w \<union> dir_key ` set (dir_tree [] d),
                       trace := trace w @ [(PathExists d, None), (Makedirs d, None),
                                           (OpenWrite (join d n), None),
                                           (WriteAll (join d n) b, None)]\<rparr>)"
proof -
  let ?w1 = "w\<lparr>trace := trace w @ [(PathExists d, None)]\<rparr>"
  let ?w2 = "w\<lparr>local_dirs := local_dirs w \<union> dir_key ` set (dir_tree [] d),
                trace := trace w @ [(PathExists d, None), (Makedirs d, None)]\<rparr>"
  let ?w3 = "w\<lparr>local_files := (local_files w)(join d n \<mapsto> []),
                local_dirs := local_dirs w \<union> dir_key ` set (dir_tree [] d),
                trace := trace w @ [(PathExists d, None), (Makedirs d, None),
                                    (OpenWrite (join d n), None)]\<rparr>"
  have n0: "n \<noteq> []" using n(2) by (auto simp add: names_a_dir_def basename_Nil)
  have 1: "path_exists d w = (False, ?w1)" using fresh by (simp add: path_exists_def)
  have 2: "makedirs d ?w1 = (Inr (), ?w2)"
    unfolding makedirs_def
    by (subst collab_faultless [where v = "()" and w' = "?w1\<lparr>local_dirs := local_dirs w \<union> dir_key ` set (dir_tree [] d)\<rparr>"])
       (use f d way in \<open>simp_all add: faultlessD\<close>)
  have key: "dir_key d \<in> dir_key ` set (dir_tree [] d)"
    using dir_tree_whole [of "[]" d] by auto
  have 3: "open_wb (join d n) ?w2 = (Inr (), ?w3)"
    unfolding open_wb_def
    by (subst collab_faultless [where v = "()" and w' = "?w2\<lparr>local_files := (local_files w)(join d n \<mapsto> [])\<rparr>"])
       (use f n t key join_not_in_tree [OF n(1) n0 d] in
         \<open>simp_all add: faultlessD names_a_dir_join parent_key_join [OF n(1) d] is_dir_key_def\<close>)
  have 4: "write_all (join d n) b ?w3 =
       (Inr (), w\<lparr>local_files := (local_files w)(join d n \<mapsto> b),
                       local_dirs := local_dirs w \<union> dir_key ` set (dir_tree [] d),
                       trace := trace w @ [(PathExists d, None), (Makedirs d, None),
                                           (OpenWrite (join d n), None),
                                           (WriteAll (join d n) b, None)]\<rparr>)"
    unfolding write_all_def
    by (subst collab_faultless [where v = "()" and w' = "?w3\<lparr>local_files := (local_files w)(join d n \<mapsto> b)\<rparr>"])
       (use f in \<open>simp_all add: faultlessD\<close>)
  show ?thesis by (simp add: save_file_def Let_def 1 2 3 4)
qed

lemma save_file_existing:
  assumes f: "faultless w" and there: "exists_now w d" and dir: "file_at w d = None"
    and n: "CHR ''/'' \<notin> set n" "\<not> names_a_dir n"
    and t: "dir_key (join d n) \<notin> local_dirs w"
  shows "save_file n b d w =
           (Inr (), w\<lparr>local_files := (local_files w)(join d n \<mapsto> b),
                       trace := trace w @ [(PathExists d, None),
                                           (OpenWrite (join d n), None),
                                           (WriteAll (join d n) b, None)]\<rparr>)"
proof -
  let ?w1 = "w\<lparr>trace := trace w @ [(PathExists d, None)]\<rparr>"
  let ?w3 = "w\<lparr>local_files := (local_files w)(join d n \<mapsto> []),
                trace := trace w @ [(PathExists d, None), (OpenWrite (join d n), None)]\<rparr>"
  from there dir have d: "d \<noteq> []" and k: "is_dir_key w (dir_key d)"
    by (simp_all add: exists_now_def)
  have 1: "path_exists d w = (True, ?w1)" using there by (simp add: path_exists_def)
  have 3: "open_wb (join d n) ?w1 = (Inr (), ?w3)"
    unfolding open_wb_def
    by (subst collab_faultless [where v = "()" and w' = "?w1\<lparr>local_files := (local_files w)(join d n \<mapsto> [])\<rparr>"])
       (use f n t k in
         \<open>simp_all add: faultlessD names_a_dir_join parent_key_join [OF n(1) d]\<close>)
  have 4: "write_all (join d n) b ?w3 =
       (Inr (), w\<lparr>local_files := (local_files w)(join d n \<mapsto> b),
                       trace := trace w @ [(PathExists d, None),
                                           (OpenWrite (join d n), None),
                                           (WriteAll (join d n) b, None)]\<rparr>)"
    unfolding write_all_def
    by (subst collab_faultless [where v = "()" and w' = "?w3\<lparr>local_files := (local_files w)(join d n \<mapsto> b)\<rparr>"])
       (use f in \<open>simp_all add: faultlessD\<close>)
  show ?thesis by (simp add: save_file_def Let_def 1 3 4)
qed


lemma absolute_slash: "absolute ctx (CHR ''/'' # u) = CHR ''/'' # u"
  by (simp add: absolute_def)

lemma folder_of_file_path: "CHR ''/'' \<notin> set n \<Longrightarrow> butlast (head_of (P @ CHR ''/'' # n)) = P"
  by (simp add: head_of_append head_of_Cons butlast_append)

lemma name_of_file_path: "CHR ''/'' \<notin> set n \<Longrightarrow> basename (P @ CHR ''/'' # n) = n"
  by (simp add: basename_append basename_Cons)

lemma basename_after_slash: "basename (P @ CHR ''/'' # s) = basename s"
  by (auto simp add: basename_append basename_Cons basename_no_slash)

lemma open_binary_Inr:
  assumes "fst (open_binary ctx p w) = Inr file"
  shows "\<exists>d r. remote w (butlast (head_of (absolute ctx p))) = Some d \<and>
               find (\<lambda>r. rf_name r = basename p) (stored_files d) = Some r \<and>
               content file = rf_content r"
    and "snd (open_binary ctx p w) = w\<lparr>trace := trace w @ [(OpenBinary ctx p, None)]\<rparr>"
  using collab_Inr_sem [OF assms [unfolded open_binary_def]]
  by (auto simp add: open_binary_def split: option.splits)

lemma get_sharepoint_file_content_Inr:
  assumes "fst (get_sharepoint_file_content self src w) = Inr c"
  shows "\<exists>file. fst (open_binary (session self)
                  (''/sites/'' @ site_name self @ ''/'' @ doc self @ ''/'' @ src) w) = Inr file \<and>
                content file = c"
  using assms
  by (cases "open_binary (session self)
               (''/sites/'' @ site_name self @ ''/'' @ doc self @ ''/'' @ src) w";
      cases "fst (open_binary (session self)
               (''/sites/'' @ site_name self @ ''/'' @ doc self @ ''/'' @ src) w)")
     (auto simp add: get_sharepoint_file_content_def)

lemma download_file_result:
  assumes read: "fst (get_sharepoint_file_content self src w) = Inr c"
    and f: "faultless w" and src: "\<not> names_a_dir src" and d: "d \<noteq> []"
    and way: "\<not> list_ex (\<lambda>q. file_at w q \<noteq> None) (dir_tree [] d)"
    and t: "dir_key (join d (basename src)) \<notin> local_dirs w"
  shows "download_file self src d w =
     (Inr (),
      w\<lparr>local_files := (local_files w)(join d (basename src) \<mapsto> c),
        local_dirs := (if exists_now w d then local_dirs w
                       else local_dirs w \<union> dir_key ` set (dir_tree [] d)),
        trace := trace w @
          [(OpenBinary (session self)
              (''/sites/'' @ site_name self @ ''/'' @ doc self @ ''/'' @ src), None),
           (PathExists d, None)] @
          (if exists_now w d then [] else [(Makedirs d, None)]) @
          [(OpenWrite (join d (basename src)), None),
           (WriteAll (join d (basename src)) c, None)]\<rparr>)"
proof -
  define P where "P = ''/sites/'' @ site_name self @ ''/'' @ doc self @ ''/'' @ src"
  define w1 where "w1 = w\<lparr>trace := trace w @ [(OpenBinary (session self) P, None)]\<rparr>"
  from get_sharepoint_file_content_Inr [OF read] obtain resp
    where o: "fst (open_binary (session self) P w) = Inr resp" and c: "content resp = c"
    unfolding P_def by blast
  have ob: "open_binary (session self) P w = (Inr resp, w1)"
    using o open_binary_Inr(2) [OF o] by (simp add: prod_eq_iff w1_def)
  have n: "CHR ''/'' \<notin> set (basename src)" "\<not> names_a_dir (basename src)"
    using src by (simp_all add: slash_notin_basename names_a_dir_basename)
  have dl: "download_file self src d w = save_file (basename src) c d w1"
    using ob c unfolding P_def download_file_def get_sharepoint_file_content_def by simp
  have way1: "\<not> list_ex (\<lambda>q. file_at w1 q \<noteq> None) (dir_tree [] d)"
    using way by (simp add: w1_def)
  have t1: "dir_key (join d (basename src)) \<notin> local_dirs w1" using t by (simp add: w1_def)
  have f1: "faultless w1" using f by (simp add: w1_def)
  show ?thesis
  proof (cases "exists_now w d")
    case True
    then have e1: "exists_now w1 d" by (simp add: w1_def)
    have "file_at w d = None"
      using way dir_tree_whole [of "[]" d] by (auto simp add: list_ex_iff)
    then have d1: "file_at w1 d = None" by (simp add: w1_def)
    show ?thesis
      unfolding dl save_file_existing [OF f1 e1 d1 n t1]
      using True by (simp add: w1_def P_def)
  next
    case False
    then have e1: "\<not> exists_now w1 d" by (simp add: w1_def)
    show ?thesis
      unfolding dl save_file_creates [OF f1 d e1 way1 n t1]
      using False by (simp add: w1_def P_def)
  qed
qed

lemma upload_file_Inr:
  assumes "fst (upload_file self lp dest w) = Inr u"
  shows "\<exists>c d.
     file_at w lp = Some c \<and>
     remote w (''/sites/'' @ site_name self @ ''/'' @ doc self @ ''/'' @ dest) = Some d \<and>
     snd (upload_file self lp dest w) =
       w\<lparr>remote := (remote w)
            (''/sites/'' @ site_name self @ ''/'' @ doc self @ ''/'' @ dest \<mapsto>
               d\<lparr>stored_files :=
                   put_file (''/sites/'' @ site_name self @ ''/'' @ doc self @ ''/'' @ dest)
                     (server_time w) (basename lp) c (stored_files d)\<rparr>),
         trace := trace w @
           [(ReadAll lp, None),
            (GetFolderByServerRelativePath (session self)
               (''/sites/'' @ site_name self @ ''/'' @ doc self @ ''/'' @ dest), None),
            (FolderUploadFile
               (Folder (session self)
                  (''/sites/'' @ site_name self @ ''/'' @ doc self @ ''/'' @ dest) [] [])
               (basename lp) c, None)]\<rparr>"
proof -
  define P where "P = ''/sites/'' @ site_name self @ ''/'' @ doc self @ ''/'' @ dest"
  have Pabs: "absolute (session self) P = P" by (simp add: P_def absolute_slash)
  note a = assms [unfolded upload_file_bind, folded P_def]
  from bind_io_result [OF a] obtain c
    where r: "fst (read_all lp w) = Inr c"
      and a2: "fst (bind_io (get_folder_by_server_relative_path (session self) P)
                 (\<lambda>h. folder_upload_file h (basename lp) c) (snd (read_all lp w))) = Inr u"
      and e1: "upload_file self lp dest w =
                bind_io (get_folder_by_server_relative_path (session self) P)
                 (\<lambda>h. folder_upload_file h (basename lp) c) (snd (read_all lp w))"
    using a by (auto simp add: upload_file_bind P_def)
  note rr = read_all_Inr [OF r]
  define w1 where "w1 = w\<lparr>trace := trace w @ [(ReadAll lp, None)]\<rparr>"
  from bind_io_result [OF a2] obtain h
    where l: "fst (get_folder_by_server_relative_path (session self) P w1) = Inr h"
      and a3: "fst (folder_upload_file h (basename lp) c
                  (snd (get_folder_by_server_relative_path (session self) P w1))) = Inr u"
      and e2: "bind_io (get_folder_by_server_relative_path (session self) P)
                 (\<lambda>h. folder_upload_file h (basename lp) c) w1 =
               folder_upload_file h (basename lp) c
                 (snd (get_folder_by_server_relative_path (session self) P w1))"
    using a2 by (auto simp add: rr(2) w1_def)
  note ll = lookup_path_Inr [OF l]
  define w2 where "w2 = w1\<lparr>trace := trace w1 @ [(GetFolderByServerRelativePath (session self) P, None)]\<rparr>"
  have a4: "fst (folder_upload_file (Folder (session self) P [] []) (basename lp) c w2) = Inr u"
    using a3 by (simp add: ll w2_def)
  from collab_Inr_sem [OF a4 [unfolded folder_upload_file_def]]
  obtain d where d: "remote w P = Some d"
    and w3: "snd (folder_upload_file (Folder (session self) P [] []) (basename lp) c w2) =
       w2\<lparr>remote := (remote w)(P \<mapsto> d\<lparr>stored_files :=
              put_file P (server_time w) (basename lp) c (stored_files d)\<rparr>),
          trace := trace w2 @ [(FolderUploadFile (Folder (session self) P [] []) (basename lp) c, None)]\<rparr>"
    by (auto simp add: folder_upload_file_def folder_key_def Pabs w2_def w1_def split: option.splits)
  have "snd (upload_file self lp dest w) =
          snd (folder_upload_file (Folder (session self) P [] []) (basename lp) c w2)"
    by (simp add: e1 rr(2) w1_def [symmetric] e2 ll w2_def [symmetric])
  then have "snd (upload_file self lp dest w) =
       w\<lparr>remote := (remote w)(P \<mapsto> d\<lparr>stored_files :=
              put_file P (server_time w) (basename lp) c (stored_files d)\<rparr>),
         trace := trace w @
           [(ReadAll lp, None), (GetFolderByServerRelativePath (session self) P, None),
            (FolderUploadFile (Folder (session self) P [] []) (basename lp) c, None)]\<rparr>"
    by (simp add: w3) (simp add: w2_def w1_def)
  with rr(1) d show ?thesis unfolding P_def by blast
qed


text \<open>
  C6: when the local file can be read, what was read is the whole file, and \<open>upload_file\<close>
  makes the read, the folder lookup and, unless the lookup raised, exactly one upload
  request, named with the base name of the local path and carrying those bytes. When the
  upload returns, the folder holds a file of that name with those bytes.
\<close>

theorem upload_file_sends_local_content:
  assumes "fst (get_local_file_content self lp w) = Inr c"
  shows "file_at w lp = Some c \<and>
         calls (upload_file self lp dest) w =
           [ReadAll lp,
            GetFolderByServerRelativePath (session self)
              (''/sites/'' @ site_name self @ ''/'' @ doc self @ ''/'' @ dest)] @
           (case fst (get_folder_by_server_relative_path (session self)
                        (''/sites/'' @ site_name self @ ''/'' @ doc self @ ''/'' @ dest)
                        (snd (read_all lp w))) of
              Inl e \<Rightarrow> []
            | Inr h \<Rightarrow>
                [FolderUploadFile
                   (Folder (session self)
                      (''/sites/'' @ site_name self @ ''/'' @ doc self @ ''/'' @ dest) [] [])
                   (basename lp) c]) \<and>
         (fst (upload_file self lp dest w) = Inr () \<longrightarrow>
            (\<exists>d r. remote (snd (upload_file self lp dest w))
                      (''/sites/'' @ site_name self @ ''/'' @ doc self @ ''/'' @ dest) = Some d \<and>
                   find (\<lambda>r. rf_name r = basename lp) (stored_files d) = Some r \<and>
                   rf_content r = c))"
proof (intro conjI impI)
  from assms have r: "fst (read_all lp w) = Inr c" by (simp add: get_local_file_content_def)
  from read_all_Inr(1) [OF r] show c: "file_at w lp = Some c" .
  show "calls (upload_file self lp dest) w =
           [ReadAll lp,
            GetFolderByServerRelativePath (session self)
              (''/sites/'' @ site_name self @ ''/'' @ doc self @ ''/'' @ dest)] @
           (case fst (get_folder_by_server_relative_path (session self)
                        (''/sites/'' @ site_name self @ ''/'' @ doc self @ ''/'' @ dest)
                        (snd (read_all lp w))) of
              Inl e \<Rightarrow> []
            | Inr h \<Rightarrow>
                [FolderUploadFile
                   (Folder (session self)
                      (''/sites/'' @ site_name self @ ''/'' @ doc self @ ''/'' @ dest) [] [])
                   (basename lp) c])"
    by (simp add: calls_upload_file r)
  assume "fst (upload_file self lp dest w) = Inr ()"
  from upload_file_Inr [OF this] c find_put_file
  show "\<exists>d r. remote (snd (upload_file self lp dest w))
                      (''/sites/'' @ site_name self @ ''/'' @ doc self @ ''/'' @ dest) = Some d \<and>
                   find (\<lambda>r. rf_name r = basename lp) (stored_files d) = Some r \<and>
                   rf_content r = c"
    by fastforce
qed

lemmas upload_defs =
  upload_file_def get_local_file_content_def send_file_to_sharepoint_def read_all_def
  get_folder_by_server_relative_path_def folder_upload_file_def collab_def file_at_def
  names_a_dir_def basename_def folder_key_def absolute_def

theorem upload_file_sends_local_content_witness:
  "fst (get_local_file_content sp_ex ''examples/test.csv'' w_ex) = Inr ''a,b,c'' \<and>
   file_at w_ex ''examples/test.csv'' = Some ''a,b,c'' \<and>
   fst (upload_file sp_ex ''examples/test.csv'' ''General'' w_ex) = Inr () \<and>
   (\<exists>d r. remote (snd (upload_file sp_ex ''examples/test.csv'' ''General'' w_ex))
             (''/sites/'' @ site_name sp_ex @ ''/'' @ doc sp_ex @ ''/'' @ ''General'') = Some d \<and>
          find (\<lambda>r. rf_name r = basename ''examples/test.csv'') (stored_files d) = Some r \<and>
          rf_content r = ''a,b,c'')"
proof -
  have h: "fst (get_local_file_content sp_ex ''examples/test.csv'' w_ex) = Inr ''a,b,c''"
    by (simp add: upload_defs w_ex_def)
  have u: "fst (upload_file sp_ex ''examples/test.csv'' ''General'' w_ex) = Inr ()"
    by (simp add: upload_defs sp_ex_def w_ex_def)
  from upload_file_sends_local_content [OF h, of "''General''"] h u show ?thesis by blast
qed

text \<open>
  C7: when the remote read returns \<open>c\<close>, the file system raises nothing of its own, the
  source names a file, and the destination is a directory or does not exist yet (nothing on
  the way to it is a regular file, and the target is not a directory), \<open>download_file\<close>
  returns, \<open>c\<close> is the content the store holds for the file of that name, the destination
  directory exists afterwards, its tree having been made when it was missing, and the file
  named with the base name of the source holds \<open>c\<close> in it. \<open>makedirs\<close> is called exactly
  when the destination did not exist.
\<close>

theorem download_file_writes_remote_content:
  assumes "fst (get_sharepoint_file_content self src w) = Inr c"
    and "faultless w" and "\<not> names_a_dir src" and "d \<noteq> []"
    and "\<not> list_ex (\<lambda>q. file_at w q \<noteq> None) (dir_tree [] d)"
    and "dir_key (join d (basename src)) \<notin> local_dirs w"
  shows "fst (download_file self src d w) = Inr () \<and>
         file_at (snd (download_file self src d w)) (join d (basename src)) = Some c \<and>
         is_dir_key (snd (download_file self src d w)) (dir_key d) \<and>
         (\<not> exists_now w d \<longrightarrow>
            dir_key ` set (dir_tree [] d) \<subseteq> local_dirs (snd (download_file self src d w))) \<and>
         calls (download_file self src d) w =
           [OpenBinary (session self)
              (''/sites/'' @ site_name self @ ''/'' @ doc self @ ''/'' @ src),
            PathExists d] @
           (if exists_now w d then [] else [Makedirs d]) @
           [OpenWrite (join d (basename src)), WriteAll (join d (basename src)) c] \<and>
         (\<exists>f r. remote w (butlast (head_of
                    (''/sites/'' @ site_name self @ ''/'' @ doc self @ ''/'' @ src))) = Some f \<and>
                find (\<lambda>r. rf_name r = basename src) (stored_files f) = Some r \<and>
                rf_content r = c)"
proof -
  note res = download_file_result [OF assms]
  have n: "CHR ''/'' \<notin> set (basename src)" "\<not> names_a_dir (basename src)"
    using assms(3) by (simp_all add: slash_notin_basename names_a_dir_basename)
  have nd: "\<not> names_a_dir (join d (basename src))"
    using n by (simp add: names_a_dir_join)
  have "file_at w d = None"
    using assms(5) dir_tree_whole [of "[]" d] by (auto simp add: list_ex_iff)
  then have k: "exists_now w d \<Longrightarrow> is_dir_key w (dir_key d)"
    by (simp add: exists_now_def)
  have key: "dir_key d \<in> dir_key ` set (dir_tree [] d)"
    using dir_tree_whole [of "[]" d] by auto
  from get_sharepoint_file_content_Inr [OF assms(1)] obtain resp
    where o: "fst (open_binary (session self)
                (''/sites/'' @ site_name self @ ''/'' @ doc self @ ''/'' @ src) w) = Inr resp"
      and c: "content resp = c" by blast
  have store: "\<exists>f r. remote w (butlast (head_of
                    (''/sites/'' @ site_name self @ ''/'' @ doc self @ ''/'' @ src))) = Some f \<and>
                find (\<lambda>r. rf_name r = basename src) (stored_files f) = Some r \<and>
                rf_content r = c"
  proof -
    have bn: "basename (''/sites/'' @ site_name self @ ''/'' @ doc self @ ''/'' @ src) =
                basename src"
      using basename_after_slash [of "''/sites/'' @ site_name self @ ''/'' @ doc self" src]
      by simp
    from open_binary_Inr(1) [OF o] c show ?thesis
      unfolding bn by (auto simp add: absolute_slash)
  qed
  have 1: "fst (download_file self src d w) = Inr ()" by (simp add: res)
  have 2: "file_at (snd (download_file self src d w)) (join d (basename src)) = Some c"
    using nd by (simp add: res file_at_def)
  have 3: "is_dir_key (snd (download_file self src d w)) (dir_key d)"
    using k key by (simp add: res is_dir_key_def)
  have 4: "\<not> exists_now w d \<longrightarrow>
            dir_key ` set (dir_tree [] d) \<subseteq> local_dirs (snd (download_file self src d w))"
    by (simp add: res)
  have 5: "calls (download_file self src d) w =
           [OpenBinary (session self)
              (''/sites/'' @ site_name self @ ''/'' @ doc self @ ''/'' @ src),
            PathExists d] @
           (if exists_now w d then [] else [Makedirs d]) @
           [OpenWrite (join d (basename src)), WriteAll (join d (basename src)) c]"
    by (simp add: calls_def events_def res)
  from 1 2 3 4 5 store show ?thesis by blast
qed


lemmas download_defs =
  download_file_def get_sharepoint_file_content_def open_binary_def save_file_def
  path_exists_def makedirs_def open_wb_def write_all_def collab_def exists_now_def
  is_dir_key_def dir_key_def rstrip_slash_def parent_key_def head_of_def file_at_def
  names_a_dir_def basename_def join_def absolute_def Let_def

theorem download_file_writes_remote_content_witness:
  "fst (get_sharepoint_file_content sp_ex ''General/test.csv'' w_listed) = Inr ''a,b,c'' \<and>
   faultless w_listed \<and> \<not> names_a_dir ''General/test.csv'' \<and> ''downloads'' \<noteq> [] \<and>
   \<not> list_ex (\<lambda>q. file_at w_listed q \<noteq> None) (dir_tree [] ''downloads'') \<and>
   dir_key (join ''downloads'' (basename ''General/test.csv'')) \<notin> local_dirs w_listed \<and>
   \<not> exists_now w_listed ''downloads'' \<and>
   fst (download_file sp_ex ''General/test.csv'' ''downloads'' w_listed) = Inr () \<and>
   file_at (snd (download_file sp_ex ''General/test.csv'' ''downloads'' w_listed))
     (join ''downloads'' (basename ''General/test.csv'')) = Some ''a,b,c'' \<and>
   join ''downloads'' (basename ''General/test.csv'') = ''downloads/test.csv'' \<and>
   dir_key ` set (dir_tree [] ''downloads'') \<subseteq>
     local_dirs (snd (download_file sp_ex ''General/test.csv'' ''downloads'' w_listed))"
proof -
  have h1: "fst (get_sharepoint_file_content sp_ex ''General/test.csv'' w_listed) = Inr ''a,b,c''"
    by (simp add: download_defs sp_ex_def ctx_ex_def w_listed_def w_ex_def)
  have h2: "faultless w_listed" by (simp add: faultless_def w_listed_def w_ex_def)
  have h3: "\<not> names_a_dir ''General/test.csv''" by (simp add: names_a_dir_def basename_def)
  have h4: "''downloads'' \<noteq> []" by simp
  have h5: "\<not> list_ex (\<lambda>q. file_at w_listed q \<noteq> None) (dir_tree [] ''downloads'')"
    by (simp add: file_at_def names_a_dir_def basename_def w_listed_def w_ex_def)
  have h6: "dir_key (join ''downloads'' (basename ''General/test.csv'')) \<notin> local_dirs w_listed"
    by (simp add: dir_key_def rstrip_slash_def join_def basename_def w_listed_def w_ex_def)
  have h7: "\<not> exists_now w_listed ''downloads''"
    by (simp add: exists_now_def is_dir_key_def dir_key_def rstrip_slash_def file_at_def
          names_a_dir_def basename_def w_listed_def w_ex_def)
  have h8: "join ''downloads'' (basename ''General/test.csv'') = ''downloads/test.csv''"
    by (simp add: join_def basename_def)
  from download_file_writes_remote_content [OF h1 h2 h3 h4 h5 h6]
    h1 h2 h3 h4 h5 h6 h7 h8
  show ?thesis by blast
qed

text \<open>
  C3: when \<open>upload_file\<close> has returned and the collaborators raise nothing of their own,
  downloading the same remote name (the folder, a slash, the base name of the local path)
  into a destination that is a directory or does not exist yet returns, and the file it
  writes there under that base name has exactly the bytes the local file had.
\<close>

theorem upload_then_download_round_trip:
  assumes up: "fst (upload_file self lp dest w) = Inr ()"
    and f: "faultless w" and d: "d \<noteq> []"
    and way: "\<not> list_ex (\<lambda>q. file_at w q \<noteq> None) (dir_tree [] d)"
    and t: "dir_key (join d (basename lp)) \<notin> local_dirs w"
  shows "fst (download_file self (dest @ ''/'' @ basename lp) d
                (snd (upload_file self lp dest w))) = Inr () \<and>
         file_at (snd (download_file self (dest @ ''/'' @ basename lp) d
                         (snd (upload_file self lp dest w))))
                 (join d (basename lp)) = file_at w lp \<and>
         file_at w lp \<noteq> None"
proof -
  define P where "P = ''/sites/'' @ site_name self @ ''/'' @ doc self @ ''/'' @ dest"
  define n where "n = basename lp"
  define src where "src = dest @ ''/'' @ n"
  from upload_file_Inr [OF up, folded P_def n_def] obtain c dd
    where c: "file_at w lp = Some c" and dd: "remote w P = Some dd"
      and w1: "snd (upload_file self lp dest w) =
         w\<lparr>remote := (remote w)(P \<mapsto>
               dd\<lparr>stored_files := put_file P (server_time w) n c (stored_files dd)\<rparr>),
            trace := trace w @
              [(ReadAll lp, None), (GetFolderByServerRelativePath (session self) P, None),
               (FolderUploadFile (Folder (session self) P [] []) n c, None)]\<rparr>"
    by blast
  define w1 where "w1 = snd (upload_file self lp dest w)"
  note W1 = w1 [folded w1_def]
  have ns: "CHR ''/'' \<notin> set n" by (simp add: n_def slash_notin_basename)
  have bsrc: "basename src = n"
    by (simp add: src_def basename_after_slash basename_no_slash ns)
  from c have "\<not> names_a_dir lp" by (simp add: file_at_def split: if_splits)
  then have nsrc: "\<not> names_a_dir src" by (simp add: names_a_dir_def bsrc n_def)
  have path: "''/sites/'' @ site_name self @ ''/'' @ doc self @ ''/'' @ src = P @ CHR ''/'' # n"
    by (simp add: P_def src_def)
  have Pabs: "absolute (session self) (P @ CHR ''/'' # n) = P @ CHR ''/'' # n"
    by (simp add: P_def absolute_def)
  from find_put_file [of n P "server_time w" c "stored_files dd"] obtain r
    where r: "find (\<lambda>r. rf_name r = n) (put_file P (server_time w) n c (stored_files dd)) = Some r"
      and rc: "rf_content r = c" by blast
  have f1: "faultless w1" using f by (simp add: W1)
  have ob: "open_binary (session self) (P @ CHR ''/'' # n) w1 =
        (Inr \<lparr>content = c\<rparr>, w1\<lparr>trace := trace w1 @ [(OpenBinary (session self) (P @ CHR ''/'' # n), None)]\<rparr>)"
    unfolding open_binary_def
    by (rule collab_faultless)
       (simp_all add: faultlessD [OF f] Pabs folder_of_file_path [OF ns]
          name_of_file_path [OF ns] W1 r rc)
  have read: "fst (get_sharepoint_file_content self src w1) = Inr c"
    unfolding get_sharepoint_file_content_def path by (simp add: ob)
  have way1: "\<not> list_ex (\<lambda>q. file_at w1 q \<noteq> None) (dir_tree [] d)"
    using way by (simp add: W1)
  have t1: "dir_key (join d (basename src)) \<notin> local_dirs w1"
    using t by (simp add: W1 bsrc n_def)
  note res = download_file_result [OF read f1 nsrc d way1 t1]
  have nd: "\<not> names_a_dir (join d n)"
    using ns \<open>\<not> names_a_dir lp\<close> by (simp add: names_a_dir_join n_def names_a_dir_basename)
  have 1: "fst (download_file self src d w1) = Inr ()" by (simp add: res)
  have 2: "file_at (snd (download_file self src d w1)) (join d n) = Some c"
    using nd by (simp add: res bsrc file_at_def)
  from 1 2 c show ?thesis by (simp add: src_def n_def w1_def)
qed

theorem upload_then_download_round_trip_witness:
  "fst (upload_file sp_ex ''examples/test.csv'' ''General'' w_ex) = Inr () \<and>
   faultless w_ex \<and> ''downloads'' \<noteq> [] \<and>
   \<not> list_ex (\<lambda>q. file_at w_ex q \<noteq> None) (dir_tree [] ''downloads'') \<and>
   dir_key (join ''downloads'' (basename ''examples/test.csv'')) \<notin> local_dirs w_ex \<and>
   \<not> exists_now w_ex ''downloads'' \<and>
   fst (download_file sp_ex (''General'' @ ''/'' @ basename ''examples/test.csv'') ''downloads''
          (snd (upload_file sp_ex ''examples/test.csv'' ''General'' w_ex))) = Inr () \<and>
   file_at (snd (download_file sp_ex (''General'' @ ''/'' @ basename ''examples/test.csv'')
                   ''downloads'' (snd (upload_file sp_ex ''examples/test.csv'' ''General'' w_ex))))
           (join ''downloads'' (basename ''examples/test.csv'')) = file_at w_ex ''examples/test.csv'' \<and>
   file_at w_ex ''examples/test.csv'' = Some ''a,b,c'' \<and>
   join ''downloads'' (basename ''examples/test.csv'') = ''downloads/test.csv''"
proof -
  have h1: "fst (upload_file sp_ex ''examples/test.csv'' ''General'' w_ex) = Inr ()"
    by (simp add: upload_defs sp_ex_def w_ex_def)
  have h2: "faultless w_ex" by (simp add: faultless_def w_ex_def)
  have h3: "''downloads'' \<noteq> []" by simp
  have h4: "\<not> list_ex (\<lambda>q. file_at w_ex q \<noteq> None) (dir_tree [] ''downloads'')"
    by (simp add: file_at_def names_a_dir_def basename_def w_ex_def)
  have h5: "dir_key (join ''downloads'' (basename ''examples/test.csv'')) \<notin> local_dirs w_ex"
    by (simp add: dir_key_def rstrip_slash_def join_def basename_def w_ex_def)
  have h6: "\<not> exists_now w_ex ''downloads''"
    by (simp add: exists_now_def is_dir_key_def dir_key_def rstrip_slash_def file_at_def
          names_a_dir_def basename_def w_ex_def)
  have h7: "file_at w_ex ''examples/test.csv'' = Some ''a,b,c''"
    by (simp add: file_at_def names_a_dir_def basename_def w_ex_def)
  have h8: "join ''downloads'' (basename ''examples/test.csv'') = ''downloads/test.csv''"
    by (simp add: join_def basename_def)
  from upload_then_download_round_trip [OF h1 h2 h3 h4 h5] h1 h2 h3 h4 h5 h6 h7 h8
  show ?thesis by blast
qed

end
